theory Spec2Isabelle
  imports Complex_Main
begin

section \<open>Python values, dictionaries and errors\<close>

text \<open>
  The tools read GeoJSON feature collections with \<^verbatim>\<open>json.load\<close> and work on the
  resulting dictionaries. A property value is a JSON scalar: \<^verbatim>\<open>None\<close>, a bool, an int
  (unbounded), a float or a string. Floats are idealised as real numbers: the float
  written \<^verbatim>\<open>0.2\<close> in the source is the real \<open>0.2\<close>, and float arithmetic is real
  arithmetic without rounding. A property dictionary is a map from keys to values.
  Strings are lists of 8-bit characters; the digits and blanks that \<^verbatim>\<open>int()\<close> and
  \<^verbatim>\<open>isdigit()\<close> recognise are those of ASCII.
\<close>

datatype json = JNull | JBool bool | JInt int | JFloat real | JStr string

datatype error = TypeError | ValueError | KeyError | IndexError | ZeroDivisionError | SystemExit

type_synonym props = "string \<rightharpoonup> json"

definition and_then :: "error + 'a \<Rightarrow> ('a \<Rightarrow> error + 'b) \<Rightarrow> error + 'b" where
  "and_then r f = (case r of Inl e \<Rightarrow> Inl e | Inr x \<Rightarrow> f x)"

text \<open>\<^verbatim>\<open>p.get(k)\<close> and \<^verbatim>\<open>p.get(k, d)\<close>.\<close>

definition py_get :: "props \<Rightarrow> string \<Rightarrow> json" where
  "py_get p k = (case p k of None \<Rightarrow> JNull | Some v \<Rightarrow> v)"

definition py_get_default :: "props \<Rightarrow> string \<Rightarrow> json \<Rightarrow> json" where
  "py_get_default p k d = (case p k of None \<Rightarrow> d | Some v \<Rightarrow> v)"

text \<open>Truth value of a scalar, as \<^verbatim>\<open>if not x\<close> and \<^verbatim>\<open>x or y\<close> test it.\<close>

fun truthy :: "json \<Rightarrow> bool" where
  "truthy JNull = False"
| "truthy (JBool b) = b"
| "truthy (JInt i) = (i \<noteq> 0)"
| "truthy (JFloat r) = (r \<noteq> 0)"
| "truthy (JStr s) = (s \<noteq> [])"

definition py_or :: "json \<Rightarrow> json \<Rightarrow> json" where
  "py_or x y = (if truthy x then x else y)"

text \<open>
  Dictionary and set keys: Python identifies numerically equal keys of different numeric
  types (\<^verbatim>\<open>True\<close>, \<^verbatim>\<open>1\<close> and \<^verbatim>\<open>1.0\<close> are one key). \<open>py_key\<close> maps a value to
  the representative under which it is stored and looked up; strings and \<^verbatim>\<open>None\<close> are
  their own representatives.
\<close>

fun py_key :: "json \<Rightarrow> json" where
  "py_key (JBool b) = JInt (if b then 1 else 0)"
| "py_key (JFloat r) = (if r = of_int \<lfloor>r\<rfloor> then JInt \<lfloor>r\<rfloor> else JFloat r)"
| "py_key v = v"

subsection \<open>\<^verbatim>\<open>int(x)\<close>\<close>

definition is_space :: "char \<Rightarrow> bool" where
  "is_space c = (c = CHR '' '' \<or> (9 \<le> (of_char c :: nat) \<and> (of_char c :: nat) \<le> 13)
     \<or> (28 \<le> (of_char c :: nat) \<and> (of_char c :: nat) \<le> 31))"

definition is_digit :: "char \<Rightarrow> bool" where
  "is_digit c = (48 \<le> (of_char c :: nat) \<and> (of_char c :: nat) \<le> 57)"

definition digit_val :: "char \<Rightarrow> nat" where
  "digit_val c = of_char c - 48"

text \<open>Decimal digits, single underscores allowed between digits.\<close>

fun py_digits :: "nat \<Rightarrow> bool \<Rightarrow> string \<Rightarrow> nat option" where
  "py_digits acc after_digit [] = (if after_digit then Some acc else None)"
| "py_digits acc after_digit (c # cs) =
     (if is_digit c then py_digits (10 * acc + digit_val c) True cs
      else if c = CHR ''_'' \<and> after_digit then py_digits acc False cs
      else None)"

definition strip :: "string \<Rightarrow> string" where
  "strip s = rev (dropWhile is_space (rev (dropWhile is_space s)))"

definition int_of_str :: "string \<Rightarrow> int option" where
  "int_of_str s =
     (case strip s of
        [] \<Rightarrow> None
      | c # cs \<Rightarrow>
          if c = CHR ''-'' then map_option (\<lambda>n. - int n) (py_digits 0 False cs)
          else if c = CHR ''+'' then map_option int (py_digits 0 False cs)
          else map_option int (py_digits 0 False (c # cs)))"

fun py_int :: "json \<Rightarrow> error + int" where
  "py_int JNull = Inl TypeError"
| "py_int (JBool b) = Inr (if b then 1 else 0)"
| "py_int (JInt i) = Inr i"
| "py_int (JFloat r) = Inr (if 0 \<le> r then \<lfloor>r\<rfloor> else \<lceil>r\<rceil>)"
| "py_int (JStr s) = (case int_of_str s of None \<Rightarrow> Inl ValueError | Some i \<Rightarrow> Inr i)"

subsection \<open>Formatting: \<^verbatim>\<open>f"{n:04d}"\<close>\<close>

fun digits10 :: "nat \<Rightarrow> string" where
  "digits10 n =
     (if n < 10 then [''0123456789'' ! n]
      else digits10 (n div 10) @ [''0123456789'' ! (n mod 10)])"

definition zero_pad :: "nat \<Rightarrow> nat \<Rightarrow> string" where
  "zero_pad w n = replicate (w - length (digits10 n)) (CHR ''0'') @ digits10 n"

section \<open>Scoring engine (scaffold\_and\_score\_hexes.py)\<close>

definition Z_WEST_HIGH_RELIEF :: props where
  "Z_WEST_HIGH_RELIEF = map_of
     [(''elev_adv_avail'', JInt 1), (''tall_struct_avail'', JInt 0),
      (''clutter_high'', JInt 0), (''backbone_los_likely'', JInt 1),
      (''pop_weight'', JFloat 0.2), (''critical_weight'', JFloat 0.2)]"

definition Z_CENTRAL_LOW_RELIEF :: props where
  "Z_CENTRAL_LOW_RELIEF = map_of
     [(''elev_adv_avail'', JInt 0), (''tall_struct_avail'', JInt 1),
      (''clutter_high'', JInt 0), (''backbone_los_likely'', JInt 1),
      (''pop_weight'', JFloat 0.4), (''critical_weight'', JFloat 0.3)]"

definition Z_EAST_RIDGE_METRO :: props where
  "Z_EAST_RIDGE_METRO = map_of
     [(''elev_adv_avail'', JInt 1), (''tall_struct_avail'', JInt 1),
      (''clutter_high'', JInt 1), (''backbone_los_likely'', JInt 0),
      (''pop_weight'', JFloat 0.6), (''critical_weight'', JFloat 0.4)]"

definition Z_UNASSIGNED :: props where
  "Z_UNASSIGNED = map_of
     [(''elev_adv_avail'', JInt 0), (''tall_struct_avail'', JInt 0),
      (''clutter_high'', JInt 0), (''backbone_los_likely'', JInt 0),
      (''pop_weight'', JFloat 0.0), (''critical_weight'', JFloat 0.0)]"

definition ZONE_DEFAULTS :: "string \<rightharpoonup> props" where
  "ZONE_DEFAULTS = map_of
     [(''Z_WEST_HIGH_RELIEF'', Z_WEST_HIGH_RELIEF),
      (''Z_CENTRAL_LOW_RELIEF'', Z_CENTRAL_LOW_RELIEF),
      (''Z_EAST_RIDGE_METRO'', Z_EAST_RIDGE_METRO),
      ([], Z_UNASSIGNED)]"

text \<open>\<^verbatim>\<open>ZONE_DEFAULTS.get(zid, ZONE_DEFAULTS[""])\<close>: only a string can be one of the keys.\<close>

definition zone_defaults_for :: "json \<Rightarrow> props" where
  "zone_defaults_for zid =
     (case zid of
        JStr s \<Rightarrow> (case ZONE_DEFAULTS s of Some d \<Rightarrow> d | None \<Rightarrow> Z_UNASSIGNED)
      | _ \<Rightarrow> Z_UNASSIGNED)"

definition clamp :: "int \<Rightarrow> int \<Rightarrow> int \<Rightarrow> int" where
  "clamp x lo hi = (if x < lo then lo else if x > hi then hi else x)"

definition compute_confidence_score :: "props \<Rightarrow> error + int" where
  "compute_confidence_score p =
     and_then (py_int (py_get_default p ''elev_adv_avail'' (JInt 0))) (\<lambda>elev.
     and_then (py_int (py_get_default p ''tall_struct_avail'' (JInt 0))) (\<lambda>tall.
     and_then (py_int (py_get_default p ''clutter_high'' (JInt 0))) (\<lambda>clutter.
     and_then (py_int (py_get_default p ''backbone_los_likely'' (JInt 0))) (\<lambda>los.
       Inr (clamp (0 + 25 * los + 20 * elev + 20 * tall + 15 * (1 - clutter)) 0 100)))))"

definition confidence_class :: "int \<Rightarrow> string" where
  "confidence_class score =
     (if score \<ge> 70 then ''HIGH'' else if score \<ge> 40 then ''MED'' else ''LOW'')"

definition tierB_requirements :: "string \<Rightarrow> int \<times> int" where
  "tierB_requirements conf_class =
     (if conf_class = ''LOW'' then (2, 1)
      else if conf_class = ''MED'' then (1, 1)
      else (1, 0))"

subsection \<open>Scaffolding: the first two loops of the body of \<^verbatim>\<open>main\<close>\<close>

definition FLAG_KEYS :: "string list" where
  "FLAG_KEYS = [''elev_adv_avail'', ''tall_struct_avail'', ''clutter_high'', ''backbone_los_likely'']"

definition WEIGHT_KEYS :: "string list" where
  "WEIGHT_KEYS = [''pop_weight'', ''critical_weight'']"

text \<open>\<^verbatim>\<open>k not in p or p.get(k) in (None, "")\<close> and \<^verbatim>\<open>k not in p or p.get(k) is None\<close>.\<close>

definition flag_blank :: "props \<Rightarrow> string \<Rightarrow> bool" where
  "flag_blank p k = (p k = None \<or> py_get p k = JNull \<or> py_get p k = JStr [])"

definition weight_blank :: "props \<Rightarrow> string \<Rightarrow> bool" where
  "weight_blank p k = (p k = None \<or> py_get p k = JNull)"

text \<open>
  One loop over a list of keys; the state is the property dictionary and the counter
  \<^verbatim>\<open>scaffolded\<close>. \<^verbatim>\<open>defaults[k]\<close> raises \<^verbatim>\<open>KeyError\<close> on a key the table lacks.
\<close>

fun fill_blank ::
  "(props \<Rightarrow> string \<Rightarrow> bool) \<Rightarrow> props \<Rightarrow> string list \<Rightarrow> props \<times> nat \<Rightarrow> error + props \<times> nat" where
  "fill_blank blank defaults [] st = Inr st"
| "fill_blank blank defaults (k # ks) (p, scaffolded) =
     (if blank p k then
        (case defaults k of
           None \<Rightarrow> Inl KeyError
         | Some v \<Rightarrow> fill_blank blank defaults ks (p(k \<mapsto> v), scaffolded + 1))
      else fill_blank blank defaults ks (p, scaffolded))"

definition scaffold :: "props \<times> nat \<Rightarrow> error + props \<times> nat" where
  "scaffold st =
     (let zid = py_get_default (fst st) ''zone_id'' (JStr []);
          defaults = zone_defaults_for zid
      in and_then (fill_blank flag_blank defaults FLAG_KEYS st)
           (fill_blank weight_blank defaults WEIGHT_KEYS))"

section \<open>Hex tessellator (make\_hex\_cells.py): the properties of an emitted cell\<close>

definition hex_cell_props :: "nat \<Rightarrow> props" where
  "hex_cell_props cell_idx = map_of
     [(''cell_id'', JStr (''H_'' @ zero_pad 6 cell_idx)),
      (''zone_id'', JStr []),
      (''cell_radius_mi'', JInt 35),
      (''elev_adv_avail'', JInt 0),
      (''tall_struct_avail'', JInt 0),
      (''clutter_high'', JInt 0),
      (''backbone_los_likely'', JInt 0),
      (''pop_weight'', JFloat 0.0),
      (''critical_weight'', JFloat 0.0),
      (''confidence_score'', JNull),
      (''confidence_class'', JNull),
      (''tierB_sites_required'', JNull),
      (''tierB_alternate_required'', JNull),
      (''tierC_demand_class'', JNull),
      (''priority_score'', JNull),
      (''notes'', JStr [])]"


section \<open>Features and geometries\<close>

text \<open>
  A coordinate pair is \<open>(lon, lat)\<close>. A feature has a property dictionary and a geometry;
  a geometry of any type the tools do not name is \<open>OtherGeometry\<close>.
\<close>

type_synonym vertex = "real \<times> real"

datatype geometry =
    Polygon "vertex list list"
  | MultiPolygon "vertex list list list"
  | LineString "vertex list"
  | Point vertex
  | OtherGeometry

record feature =
  properties :: props
  geometry :: geometry

section \<open>Coverage reducer (apply\_tiera\_coverage.py)\<close>

subsection \<open>Adjacency index\<close>

fun iter_vertices :: "geometry \<Rightarrow> error + vertex list" where
  "iter_vertices (Polygon coordinates) = Inr (concat coordinates)"
| "iter_vertices (MultiPolygon coordinates) = Inr (concat (map concat coordinates))"
| "iter_vertices _ = Inl ValueError"

text \<open>
  A Python set is a duplicate-free list here, in insertion order (\<open>List.insert\<close> adds an
  element that is not yet there). The order in which Python iterates over a set is
  unspecified; the properties of the coverage pass below are proved for every neighbor map,
  whatever the order of its lists. \<open>vertex_to_cells\<close> is read with
  \<^verbatim>\<open>get(vertex, set())\<close> only, so it is a function with the empty set as default.
\<close>

type_synonym neighbor_index = "(vertex \<Rightarrow> json list) \<times> (json \<rightharpoonup> vertex list)"

definition index_feature :: "neighbor_index \<Rightarrow> feature \<Rightarrow> error + neighbor_index" where
  "index_feature st feature =
     (let (vertex_to_cells, cell_vertices) = st;
          cell_id = py_get (properties feature) ''cell_id''
      in if \<not> truthy cell_id then Inr st
         else and_then (iter_vertices (geometry feature)) (\<lambda>vs.
           let vertices = remdups vs
           in Inr (fold (\<lambda>vertex m. m(vertex := List.insert (py_key cell_id) (m vertex)))
                     vertices vertex_to_cells,
                   cell_vertices(py_key cell_id \<mapsto> vertices))))"

fun index_features :: "neighbor_index \<Rightarrow> feature list \<Rightarrow> error + neighbor_index" where
  "index_features st [] = Inr st"
| "index_features st (feature # rest) =
     and_then (index_feature st feature) (\<lambda>st'. index_features st' rest)"

definition neighbors_of :: "(vertex \<Rightarrow> json list) \<Rightarrow> vertex list \<Rightarrow> json list" where
  "neighbors_of vertex_to_cells vertices =
     fold (\<lambda>vertex neighbors. List.union (vertex_to_cells vertex) neighbors) vertices []"

definition build_neighbor_map :: "feature list \<Rightarrow> error + (json \<rightharpoonup> json list)" where
  "build_neighbor_map hex_features =
     and_then (index_features (\<lambda>_. [], Map.empty) hex_features) (\<lambda>(vertex_to_cells, cell_vertices).
       Inr (\<lambda>cell_id. map_option (neighbors_of vertex_to_cells) (cell_vertices cell_id)))"

subsection \<open>Grouping the site features\<close>

text \<open>
  The four collections hold references to the feature objects of \<^verbatim>\<open>sites["features"]\<close>;
  a reference is the position of the feature in that list, and the list is the store that
  the pass mutates. \<^verbatim>\<open>tierb_candidates_by_cell\<close> is read with \<^verbatim>\<open>get(cell, [])\<close> only.
\<close>

record site_groups =
  tiera_features :: "nat list"
  tierb_required_features :: "nat list"
  tierb_alt_features :: "nat list"
  tierb_candidates_by_cell :: "json \<Rightarrow> nat list"

definition no_groups :: site_groups where
  "no_groups = \<lparr>tiera_features = [], tierb_required_features = [], tierb_alt_features = [],
     tierb_candidates_by_cell = (\<lambda>_. [])\<rparr>"

definition group_site :: "feature list \<Rightarrow> nat \<Rightarrow> site_groups \<Rightarrow> site_groups" where
  "group_site sites i g =
     (let props = properties (sites ! i);
          tier = py_get props ''tier'';
          notes = py_get props ''notes''
      in if tier = JStr ''A'' then g\<lparr>tiera_features := tiera_features g @ [i]\<rparr>
         else if tier \<noteq> JStr ''B'' then g
         else if notes = JStr ''ALT'' then g\<lparr>tierb_alt_features := tierb_alt_features g @ [i]\<rparr>
         else
           let g' = g\<lparr>tierb_required_features := tierb_required_features g @ [i]\<rparr>;
               cell_id = py_get props ''cell_id''
           in if py_get props ''status'' = JStr ''CANDIDATE'' \<and> truthy cell_id
              then g'\<lparr>tierb_candidates_by_cell :=
                     (tierb_candidates_by_cell g')
                       (py_key cell_id := tierb_candidates_by_cell g' (py_key cell_id) @ [i])\<rparr>
              else g')"

definition group_sites :: "feature list \<Rightarrow> site_groups" where
  "group_sites sites = fold (group_site sites) [0..<length sites] no_groups"

subsection \<open>The coverage loop\<close>

record coverage_state =
  store :: "feature list"
  satisfied_required :: nat
  tiera_used :: "json list"

definition mark_satisfied :: "props \<Rightarrow> feature \<Rightarrow> feature" where
  "mark_satisfied props candidate =
     candidate\<lparr>properties := (properties candidate)
       (''status'' \<mapsto> JStr ''SATISFIED'',
        ''satisfied_by'' \<mapsto> py_get props ''site_id'',
        ''satisfied_corridor_id'' \<mapsto> py_get props ''corridor_id'')\<rparr>"

text \<open>
  The loop over the candidates of one covered cell; the state is the store, the counter
  \<^verbatim>\<open>satisfied_required\<close> and the flag \<^verbatim>\<open>satisfied_any\<close>.
\<close>

fun satisfy_candidates ::
  "props \<Rightarrow> nat list \<Rightarrow> feature list \<times> nat \<times> bool \<Rightarrow> feature list \<times> nat \<times> bool" where
  "satisfy_candidates props [] st = st"
| "satisfy_candidates props (j # js) (sites, count, satisfied_any) =
     (if py_get (properties (sites ! j)) ''status'' \<noteq> JStr ''CANDIDATE''
      then satisfy_candidates props js (sites, count, satisfied_any)
      else satisfy_candidates props js
             (sites[j := mark_satisfied props (sites ! j)], count + 1, True))"

fun cover_cells ::
  "(json \<Rightarrow> nat list) \<Rightarrow> props \<Rightarrow> json list \<Rightarrow> feature list \<times> nat \<times> bool
     \<Rightarrow> feature list \<times> nat \<times> bool" where
  "cover_cells by_cell props [] st = st"
| "cover_cells by_cell props (covered_cell # rest) st =
     cover_cells by_cell props rest (satisfy_candidates props (by_cell (py_key covered_cell)) st)"

text \<open>\<^verbatim>\<open>neighbor_map.get(cell_id, {cell_id})\<close>.\<close>

definition covered_cells :: "(json \<rightharpoonup> json list) \<Rightarrow> json \<Rightarrow> json list" where
  "covered_cells neighbor_map cell_id =
     (case neighbor_map (py_key cell_id) of None \<Rightarrow> [cell_id] | Some cells \<Rightarrow> cells)"

definition apply_tiera ::
  "(json \<rightharpoonup> json list) \<Rightarrow> site_groups \<Rightarrow> nat \<Rightarrow> coverage_state \<Rightarrow> coverage_state" where
  "apply_tiera neighbor_map g a st =
     (let props = properties (store st ! a);
          cell_id = py_get props ''cell_id''
      in if \<not> truthy cell_id then st
         else
           let (sites', count', satisfied_any) =
                 cover_cells (tierb_candidates_by_cell g) props (covered_cells neighbor_map cell_id)
                   (store st, satisfied_required st, False)
           in \<lparr>store = sites', satisfied_required = count',
               tiera_used = (if satisfied_any
                             then List.insert (py_key (py_get props ''site_id'')) (tiera_used st)
                             else tiera_used st)\<rparr>)"

definition coverage_pass :: "(json \<rightharpoonup> json list) \<Rightarrow> feature list \<Rightarrow> coverage_state" where
  "coverage_pass neighbor_map sites =
     (let g = group_sites sites
      in fold (apply_tiera neighbor_map g) (tiera_features g)
           \<lparr>store = sites, satisfied_required = 0, tiera_used = []\<rparr>)"

subsection \<open>Per-zone rollup\<close>

record zone_row =
  tierB_required_before :: nat
  tierB_required_after :: nat
  tierB_alt_total :: nat
  tierA_sites :: nat

definition zero_row :: zone_row where
  "zero_row = \<lparr>tierB_required_before = 0, tierB_required_after = 0, tierB_alt_total = 0,
     tierA_sites = 0\<rparr>"

text \<open>
  \<^verbatim>\<open>stats = zone_stats.setdefault(zone_id, {...})\<close> followed by the updates of
  \<^verbatim>\<open>stats\<close>, for a feature with a zone id; a feature without one is skipped.
\<close>

definition count_in_zone ::
  "feature list \<Rightarrow> (feature \<Rightarrow> zone_row \<Rightarrow> zone_row) \<Rightarrow> nat \<Rightarrow> (json \<rightharpoonup> zone_row)
     \<Rightarrow> (json \<rightharpoonup> zone_row)" where
  "count_in_zone sites upd i zone_stats =
     (let zone_id = py_get (properties (sites ! i)) ''zone_id''
      in if \<not> truthy zone_id then zone_stats
         else zone_stats(py_key zone_id \<mapsto>
                upd (sites ! i) (case zone_stats (py_key zone_id) of None \<Rightarrow> zero_row | Some r \<Rightarrow> r)))"

definition count_required :: "feature \<Rightarrow> zone_row \<Rightarrow> zone_row" where
  "count_required f r =
     r\<lparr>tierB_required_before := tierB_required_before r + 1,
       tierB_required_after := tierB_required_after r
         + (if py_get (properties f) ''status'' \<noteq> JStr ''SATISFIED'' then 1 else 0)\<rparr>"

definition count_alt :: "feature \<Rightarrow> zone_row \<Rightarrow> zone_row" where
  "count_alt f r = r\<lparr>tierB_alt_total := tierB_alt_total r + 1\<rparr>"

definition count_tiera :: "feature \<Rightarrow> zone_row \<Rightarrow> zone_row" where
  "count_tiera f r = r\<lparr>tierA_sites := tierA_sites r + 1\<rparr>"

definition zone_rollup :: "site_groups \<Rightarrow> feature list \<Rightarrow> (json \<rightharpoonup> zone_row)" where
  "zone_rollup g sites =
     fold (count_in_zone sites count_tiera) (tiera_features g)
       (fold (count_in_zone sites count_alt) (tierb_alt_features g)
          (fold (count_in_zone sites count_required) (tierb_required_features g) Map.empty))"

subsection \<open>\<^verbatim>\<open>main\<close>\<close>

text \<open>
  The data directory: the hex cells and the sites that \<^verbatim>\<open>main\<close> reads, and the sites
  and the rollup table that it writes (the rows of the CSV file, by zone id; their
  serialisation is not modelled). The summary is what \<^verbatim>\<open>main\<close> prints.
\<close>

record data_dir =
  hex_cells_geojson :: "feature list"
  sites_geojson :: "feature list"
  tierb_after_tiera_by_zone :: "json \<rightharpoonup> zone_row"

record summary =
  summary_satisfied_required :: nat
  summary_remaining_required :: nat
  summary_tierA_used :: nat

definition apply_tiera_coverage_main :: "data_dir \<Rightarrow> error + data_dir \<times> summary" where
  "apply_tiera_coverage_main d =
     and_then (build_neighbor_map (hex_cells_geojson d)) (\<lambda>neighbor_map.
       let g = group_sites (sites_geojson d);
           st = coverage_pass neighbor_map (sites_geojson d);
           zone_stats = zone_rollup g (store st);
           remaining_required =
             length (filter (\<lambda>i. py_get (properties (store st ! i)) ''status'' \<noteq> JStr ''SATISFIED'')
                       (tierb_required_features g))
       in Inr (d\<lparr>sites_geojson := store st, tierb_after_tiera_by_zone := zone_stats\<rparr>,
               \<lparr>summary_satisfied_required = satisfied_required st,
                summary_remaining_required = remaining_required,
                summary_tierA_used = length (tiera_used st)\<rparr>))"

section \<open>Strings of values\<close>

text \<open>
  \<^verbatim>\<open>str(x)\<close> and the \<^verbatim>\<open>{x}\<close> of an f-string. The text Python prints for a float is
  library code outside the repository: it is the parameter \<open>float_repr\<close>.
\<close>

definition str_of_int :: "int \<Rightarrow> string" where
  "str_of_int i = (if i < 0 then CHR ''-'' # digits10 (nat (- i)) else digits10 (nat i))"

fun py_str :: "(real \<Rightarrow> string) \<Rightarrow> json \<Rightarrow> string" where
  "py_str float_repr JNull = ''None''"
| "py_str float_repr (JBool b) = (if b then ''True'' else ''False'')"
| "py_str float_repr (JInt i) = str_of_int i"
| "py_str float_repr (JFloat r) = float_repr r"
| "py_str float_repr (JStr s) = s"

text \<open>Running a fallible function over a list, stopping at the first error.\<close>

fun collect :: "('a \<Rightarrow> error + 'b) \<Rightarrow> 'a list \<Rightarrow> error + 'b list" where
  "collect f [] = Inr []"
| "collect f (x # xs) = and_then (f x) (\<lambda>y. and_then (collect f xs) (\<lambda>ys. Inr (y # ys)))"

section \<open>Corridor sampler and Tier-A seeding (seed\_tiera\_from\_corridors.py)\<close>

subsection \<open>Point in polygon\<close>

text \<open>
  The loop of \<^verbatim>\<open>_point_in_ring\<close> over the edges \<open>(ring[i], ring[i+1])\<close>; the state is
  \<^verbatim>\<open>inside\<close>. The denominator \<open>(y2 - y1) + 1e-12\<close> can be zero, and the division then
  raises.
\<close>

fun ring_edges :: "vertex \<Rightarrow> (vertex \<times> vertex) list \<Rightarrow> bool \<Rightarrow> error + bool" where
  "ring_edges pt [] inside = Inr inside"
| "ring_edges (x, y) (((x1, y1), (x2, y2)) # edges) inside =
     (if (y1 > y) \<noteq> (y2 > y) then
        (if (y2 - y1) + 1 / 10 ^ 12 = 0 then Inl ZeroDivisionError
         else
           let xinters = (x2 - x1) * (y - y1) / ((y2 - y1) + 1 / 10 ^ 12) + x1
           in ring_edges (x, y) edges (if x < xinters then \<not> inside else inside))
      else ring_edges (x, y) edges inside)"

definition point_in_ring :: "vertex \<Rightarrow> vertex list \<Rightarrow> error + bool" where
  "point_in_ring point ring = ring_edges point (zip ring (tl ring)) False"

definition point_in_polygon :: "vertex \<Rightarrow> vertex list list \<Rightarrow> error + bool" where
  "point_in_polygon point polygon_coords =
     (case polygon_coords of
        [] \<Rightarrow> Inl IndexError
      | outer # _ \<Rightarrow> point_in_ring point outer)"

subsection \<open>Lengths in miles\<close>

definition radians :: "real \<Rightarrow> real" where
  "radians deg = deg * pi / 180"

definition deg_to_miles_lon :: "real \<Rightarrow> real \<Rightarrow> real" where
  "deg_to_miles_lon dlon lat_deg = dlon * 69 * cos (radians lat_deg)"

definition deg_to_miles_lat :: "real \<Rightarrow> real" where
  "deg_to_miles_lat dlat = dlat * 69"

definition segment_len_mi :: "vertex \<Rightarrow> vertex \<Rightarrow> real" where
  "segment_len_mi a b =
     (let (lon1, lat1) = a; (lon2, lat2) = b;
          dlon = lon2 - lon1;
          dlat = lat2 - lat1;
          mx = deg_to_miles_lon dlon ((lat1 + lat2) / 2);
          my = deg_to_miles_lat dlat
      in sqrt (mx * mx + my * my))"

definition line_length_mi :: "vertex list \<Rightarrow> real" where
  "line_length_mi coords =
     fold (\<lambda>(a, b) total. total + segment_len_mi a b) (zip coords (tl coords)) 0"

definition interpolate_on_segment :: "vertex \<Rightarrow> vertex \<Rightarrow> real \<Rightarrow> vertex" where
  "interpolate_on_segment a b t = (fst a + (fst b - fst a) * t, snd a + (snd b - snd a) * t)"

subsection \<open>Sampling\<close>

text \<open>
  The loop of \<^verbatim>\<open>_point_at_distance\<close> over the segments, with the length \<^verbatim>\<open>walked\<close>;
  \<open>None\<close> when the loop ends without returning.
\<close>

fun walk_segments :: "(vertex \<times> vertex) list \<Rightarrow> real \<Rightarrow> real \<Rightarrow> vertex option" where
  "walk_segments [] walked dist_mi = None"
| "walk_segments ((a, b) # segments) walked dist_mi =
     (let seg = segment_len_mi a b
      in if walked + seg \<ge> dist_mi
         then Some (interpolate_on_segment a b (if seg = 0 then 0 else (dist_mi - walked) / seg))
         else walk_segments segments (walked + seg) dist_mi)"

definition point_at_distance :: "vertex list \<Rightarrow> real \<Rightarrow> error + vertex" where
  "point_at_distance coords dist_mi =
     (case walk_segments (zip coords (tl coords)) 0 dist_mi of
        Some p \<Rightarrow> Inr p
      | None \<Rightarrow> (if coords = [] then Inl IndexError else Inr (last coords)))"

definition sample_points_along_line :: "vertex list \<Rightarrow> int \<Rightarrow> error + vertex list" where
  "sample_points_along_line coords n =
     (if n \<le> 0 then Inr []
      else if n = 1 then
        and_then (point_at_distance coords (line_length_mi coords / 2)) (\<lambda>p. Inr [p])
      else
        let total_len = line_length_mi coords
        in if total_len \<le> 0 then
             (case coords of
                [] \<Rightarrow> Inl IndexError
              | c # _ \<Rightarrow> Inr (replicate (nat n) c))
           else
             collect (point_at_distance coords)
               (map (\<lambda>i. total_len * (of_int i / of_int (n + 1))) [1..n]))"

subsection \<open>Resolving a point to a hex cell\<close>

type_synonym hex_index = "(string \<times> string \<times> vertex list list) list"

definition build_hex_index :: "(real \<Rightarrow> string) \<Rightarrow> feature list \<Rightarrow> hex_index" where
  "build_hex_index float_repr hex_features =
     concat (map (\<lambda>f.
       let props = properties f
       in case geometry f of
            Polygon coordinates \<Rightarrow>
              let cell_id = py_or (py_or (py_get props ''cell_id'') (py_get props ''id''))
                              (py_get props ''hex_id'');
                  zone_id = py_get props ''zone_id''
              in if cell_id = JNull \<or> zone_id = JNull then []
                 else [(py_str float_repr cell_id, py_str float_repr zone_id, coordinates)]
          | _ \<Rightarrow> []) hex_features)"

fun find_hex_for_point :: "vertex \<Rightarrow> hex_index \<Rightarrow> error + (string \<times> string) option" where
  "find_hex_for_point pt [] = Inr None"
| "find_hex_for_point pt ((cell_id, zone_id, poly_coords) # rest) =
     and_then (point_in_polygon pt poly_coords) (\<lambda>inside.
       if inside then Inr (Some (cell_id, zone_id)) else find_hex_for_point pt rest)"

subsection \<open>\<^verbatim>\<open>main\<close>\<close>

definition TIERA_DEFAULT_SITE_FIELDS :: "(string \<times> json) list" where
  "TIERA_DEFAULT_SITE_FIELDS =
     [(''tier'', JStr ''A''), (''status'', JStr ''CANDIDATE''), (''site_class'', JStr ''OTHER''),
      (''access_class'', JStr ''MODERATE''), (''power_class'', JStr ''UNKNOWN''),
      (''risk_lightning'', JStr ''UNKNOWN'')]"

text \<open>A dictionary display \<^verbatim>\<open>{k1: v1, ..., **d}\<close>: later entries win.\<close>

definition dict_of :: "(string \<times> json) list \<Rightarrow> props" where
  "dict_of entries = map_of (rev entries)"

record corridor_row =
  row_required :: int
  row_alternate :: int
  row_total :: int

record seeding_state =
  seeded :: "feature list"
  seq :: nat

definition tiera_site ::
  "(real \<Rightarrow> string) \<Rightarrow> nat \<Rightarrow> json \<Rightarrow> nat \<Rightarrow> bool \<Rightarrow> string \<times> string \<Rightarrow> vertex \<Rightarrow> feature" where
  "tiera_site float_repr sq corridor_id i alt match pt =
     \<lparr>properties = dict_of
        ([(''site_id'', JStr (''S_A_'' @ zero_pad 4 sq)),
          (''site_name'', JStr (''Tier A '' @ py_str float_repr corridor_id @ '' #'' @ zero_pad 2 (i + 1))),
          (''cell_id'', JStr (fst match)),
          (''zone_id'', JStr (snd match)),
          (''corridor_id'', corridor_id),
          (''notes'', JStr (if alt then ''ALT'' else []))]
         @ TIERA_DEFAULT_SITE_FIELDS),
      geometry = Point pt\<rparr>"

text \<open>The loop \<^verbatim>\<open>for i in range(total)\<close> of one corridor, from index \<open>i\<close> on.\<close>

fun seed_points ::
  "(real \<Rightarrow> string) \<Rightarrow> hex_index \<Rightarrow> json \<Rightarrow> int \<Rightarrow> vertex list \<Rightarrow> nat list \<Rightarrow> seeding_state
     \<Rightarrow> error + seeding_state" where
  "seed_points float_repr hex_index corridor_id required pts [] st = Inr st"
| "seed_points float_repr hex_index corridor_id required pts (i # rest) st =
     (if i \<ge> length pts then Inl IndexError
      else and_then (find_hex_for_point (pts ! i) hex_index) (\<lambda>match.
        case match of
          None \<Rightarrow> seed_points float_repr hex_index corridor_id required pts rest st
        | Some m \<Rightarrow>
            seed_points float_repr hex_index corridor_id required pts rest
              \<lparr>seeded = seeded st
                  @ [tiera_site float_repr (seq st) corridor_id i (int i \<ge> required) m (pts ! i)],
               seq = seq st + 1\<rparr>))"

type_synonym corridor_rollup = "string \<rightharpoonup> corridor_row"

definition seed_corridor ::
  "(real \<Rightarrow> string) \<Rightarrow> hex_index \<Rightarrow> feature \<Rightarrow> seeding_state \<times> corridor_rollup
     \<Rightarrow> error + seeding_state \<times> corridor_rollup" where
  "seed_corridor float_repr hex_index c st =
     (let props = properties c
      in case geometry c of
           LineString coords \<Rightarrow>
             let corridor_id = py_get props ''corridor_id''
             in and_then (py_int (py_or (py_get_default props ''tierA_target_sites_min'' (JInt 0)) (JInt 0)))
                  (\<lambda>tmin.
                and_then (py_int (py_or (py_get_default props ''tierA_target_sites_max'' (JInt 0)) (JInt 0)))
                  (\<lambda>tmax.
                if corridor_id = JNull then Inl SystemExit
                else
                  let required = max 0 tmin;
                      alternate = max 0 (tmax - tmin);
                      total = required + alternate;
                      key = py_str float_repr corridor_id;
                      r = (case snd st key of
                             None \<Rightarrow> \<lparr>row_required = 0, row_alternate = 0, row_total = 0\<rparr>
                           | Some r \<Rightarrow> r);
                      rollup = (snd st)(key \<mapsto>
                                 \<lparr>row_required = row_required r + required,
                                  row_alternate = row_alternate r + alternate,
                                  row_total = row_total r + total\<rparr>)
                  in if total = 0 then Inr (fst st, rollup)
                     else and_then (sample_points_along_line coords total) (\<lambda>pts.
                            and_then (seed_points float_repr hex_index corridor_id required pts
                                        [0..<nat total] (fst st))
                              (\<lambda>st'. Inr (st', rollup)))))
         | _ \<Rightarrow> Inl SystemExit)"

fun seed_corridors ::
  "(real \<Rightarrow> string) \<Rightarrow> hex_index \<Rightarrow> feature list \<Rightarrow> seeding_state \<times> corridor_rollup
     \<Rightarrow> error + seeding_state \<times> corridor_rollup" where
  "seed_corridors float_repr hex_index [] st = Inr st"
| "seed_corridors float_repr hex_index (c # corridors) st =
     and_then (seed_corridor float_repr hex_index c st) (seed_corridors float_repr hex_index corridors)"

text \<open>
  The data directory of the seeding tools; a file that does not exist reads as an empty
  feature collection.
\<close>

record tiera_dir =
  corridors_geojson :: "feature list"
  tiera_hex_cells_geojson :: "feature list"
  tiera_sites_geojson :: "feature list"
  tiera_targets_by_corridor :: corridor_rollup

definition seed_tiera_main :: "(real \<Rightarrow> string) \<Rightarrow> tiera_dir \<Rightarrow> error + tiera_dir \<times> nat" where
  "seed_tiera_main float_repr d =
     (let corridors = corridors_geojson d;
          hex_features = tiera_hex_cells_geojson d
      in if corridors = [] then Inl SystemExit
         else if hex_features = [] then Inl SystemExit
         else
           let existing = tiera_sites_geojson d;
               kept = filter (\<lambda>f. py_get (properties f) ''tier'' \<noteq> JStr ''A'') existing;
               hex_index = build_hex_index float_repr hex_features
           in and_then (seed_corridors float_repr hex_index corridors
                          (\<lparr>seeded = [], seq = 1\<rparr>, Map.empty))
                (\<lambda>(st, rollup).
                   Inr (d\<lparr>tiera_sites_geojson := kept @ seeded st,
                          tiera_targets_by_corridor := rollup\<rparr>,
                        length (seeded st))))"

section \<open>Tier-B seeding (seed\_tierb\_sites.py)\<close>

definition REPLACE_SITES_FILE :: bool where
  "REPLACE_SITES_FILE = True"

definition TIERB_DEFAULT_SITE_FIELDS :: "(string \<times> json) list" where
  "TIERB_DEFAULT_SITE_FIELDS =
     [(''tier'', JStr ''B''), (''status'', JStr ''CANDIDATE''), (''site_class'', JStr ''OTHER''),
      (''access_class'', JStr ''MODERATE''), (''power_class'', JStr ''UNKNOWN''),
      (''risk_lightning'', JStr ''UNKNOWN''), (''corridor_id'', JNull)]"

subsection \<open>Centroids\<close>

definition polygon_area :: "vertex list \<Rightarrow> real" where
  "polygon_area points =
     (if length points < 3 then 0
      else \<bar>fold (\<lambda>((x1, y1), (x2, y2)) area. area + (x1 * y2 - x2 * y1))
                (zip points (tl points @ take 1 points)) 0\<bar> / 2)"

definition centroid_from_ring :: "vertex list \<Rightarrow> error + vertex" where
  "centroid_from_ring ring =
     (let xs = map fst (butlast ring);
          ys = map snd (butlast ring)
      in if xs = [] then Inl ZeroDivisionError
         else Inr (sum_list xs / of_nat (length xs), sum_list ys / of_nat (length ys)))"

text \<open>\<^verbatim>\<open>max(coords, key=...)\<close> on keys already computed: the first of the largest.\<close>

fun largest_by :: "'a \<times> real \<Rightarrow> ('a \<times> real) list \<Rightarrow> 'a" where
  "largest_by best [] = fst best"
| "largest_by best (x # xs) = largest_by (if snd x > snd best then x else best) xs"

definition get_centroid :: "geometry \<Rightarrow> error + vertex" where
  "get_centroid geom =
     (case geom of
        Polygon coords \<Rightarrow>
          (case coords of [] \<Rightarrow> Inl IndexError | ring # _ \<Rightarrow> centroid_from_ring ring)
      | MultiPolygon coords \<Rightarrow>
          and_then (collect (\<lambda>poly. case poly of
                                [] \<Rightarrow> Inl IndexError
                              | ring # _ \<Rightarrow> Inr (poly, polygon_area (butlast ring))) coords)
            (\<lambda>keyed. case keyed of
                [] \<Rightarrow> Inl ValueError
              | first # others \<Rightarrow>
                  (case largest_by first others of
                     [] \<Rightarrow> Inl IndexError
                   | ring # _ \<Rightarrow> centroid_from_ring ring))
      | _ \<Rightarrow> Inl SystemExit)"

definition base_offsets :: "(real \<times> real) list" where
  "base_offsets = [(-1, -1), (0, -1), (1, -1), (-1, 0), (0, 0), (1, 0), (-1, 1), (0, 1), (1, 1)]"

definition candidate_points :: "real \<Rightarrow> real \<Rightarrow> int \<Rightarrow> vertex list" where
  "candidate_points lon lat n =
     (if n \<le> 1 then [(lon, lat)]
      else
        let step = 3 / 10000
        in map (\<lambda>(dx, dy). (lon + dx * step, lat + dy * step))
             (take (nat (min n (int (length base_offsets)))) base_offsets)
           @ map (\<lambda>i. (lon + (of_int i - of_nat (length base_offsets) + 1) * step, lat))
               [int (length base_offsets)..n - 1])"

subsection \<open>Site ids\<close>

text \<open>
  The number in a site id \<^verbatim>\<open>S_B_<digits>\<close>: the id is a string that starts with
  \<^verbatim>\<open>S_B_\<close> and whose part after the last underscore is a non-empty digit string.
\<close>

definition site_seq_of :: "json \<Rightarrow> nat option" where
  "site_seq_of site_id =
     (case site_id of
        JStr s \<Rightarrow>
          if take 4 s = ''S_B_'' then
            (let tail = rev (takeWhile (\<lambda>c. c \<noteq> CHR ''_'') (rev s))
             in if tail \<noteq> [] \<and> list_all is_digit tail
                then Some (fold (\<lambda>c acc. 10 * acc + digit_val c) tail 0)
                else None)
          else None
      | _ \<Rightarrow> None)"

definition next_site_seq :: "feature list \<Rightarrow> nat" where
  "next_site_seq existing_features =
     fold (\<lambda>feat max_id.
             case site_seq_of (py_get_default (properties feat) ''site_id'' (JStr [])) of
               None \<Rightarrow> max_id
             | Some k \<Rightarrow> max max_id k) existing_features 0 + 1"

definition new_site_id :: "nat \<Rightarrow> string" where
  "new_site_id sq = ''S_B_'' @ zero_pad 4 sq"

subsection \<open>\<^verbatim>\<open>main\<close>\<close>

record zone_req_row =
  req_sites_required :: int
  req_alternate_required :: int
  req_total :: int

type_synonym zone_requirements = "json \<rightharpoonup> zone_req_row"

definition tierb_site ::
  "(real \<Rightarrow> string) \<Rightarrow> nat \<Rightarrow> json \<Rightarrow> json \<Rightarrow> nat \<Rightarrow> bool \<Rightarrow> vertex \<Rightarrow> feature" where
  "tierb_site float_repr sq cell_id zone_id i alt pt =
     \<lparr>properties = dict_of
        ([(''site_id'', JStr (new_site_id sq)),
          (''site_name'', JStr (''Tier B '' @ py_str float_repr cell_id @ '' #'' @ zero_pad 2 (i + 1))),
          (''cell_id'', cell_id),
          (''zone_id'', zone_id)]
         @ TIERB_DEFAULT_SITE_FIELDS
         @ [(''notes'', JStr (if alt then ''ALT'' else []))]),
      geometry = Point pt\<rparr>"

fun seed_cell_points ::
  "(real \<Rightarrow> string) \<Rightarrow> json \<Rightarrow> json \<Rightarrow> int \<Rightarrow> vertex list \<Rightarrow> nat list \<Rightarrow> seeding_state
     \<Rightarrow> error + seeding_state" where
  "seed_cell_points float_repr cell_id zone_id req pts [] st = Inr st"
| "seed_cell_points float_repr cell_id zone_id req pts (i # rest) st =
     (if i \<ge> length pts then Inl IndexError
      else seed_cell_points float_repr cell_id zone_id req pts rest
             \<lparr>seeded = seeded st
                 @ [tierb_site float_repr (seq st) cell_id zone_id i (int i \<ge> req) (pts ! i)],
              seq = seq st + 1\<rparr>)"

definition seed_hex ::
  "(real \<Rightarrow> string) \<Rightarrow> feature \<Rightarrow> seeding_state \<times> zone_requirements
     \<Rightarrow> error + seeding_state \<times> zone_requirements" where
  "seed_hex float_repr hf st =
     (let props = properties hf;
          geom = geometry hf;
          cell_id = py_or (py_or (py_get props ''cell_id'') (py_get props ''id''))
                      (py_get props ''hex_id'');
          zone_id = py_get props ''zone_id''
      in if cell_id = JNull then Inl SystemExit
         else if zone_id = JNull then Inl SystemExit
         else
           and_then (py_int (py_or (py_get_default props ''tierB_sites_required'' (JInt 0)) (JInt 0)))
             (\<lambda>req.
           and_then (py_int (py_or (py_get_default props ''tierB_alternate_required'' (JInt 0)) (JInt 0)))
             (\<lambda>alt.
             let total = req + alt;
                 z = (case snd st (py_key zone_id) of
                        None \<Rightarrow> \<lparr>req_sites_required = 0, req_alternate_required = 0, req_total = 0\<rparr>
                      | Some z \<Rightarrow> z);
                 by_zone = (snd st)(py_key zone_id \<mapsto>
                             \<lparr>req_sites_required = req_sites_required z + req,
                              req_alternate_required = req_alternate_required z + alt,
                              req_total = req_total z + total\<rparr>)
             in if total = 0 then Inr (fst st, by_zone)
                else and_then (get_centroid geom) (\<lambda>(lon0, lat0).
                       and_then (seed_cell_points float_repr cell_id zone_id req
                                   (candidate_points lon0 lat0 total) [0..<nat total] (fst st))
                         (\<lambda>st'. Inr (st', by_zone))))))"

fun seed_hexes ::
  "(real \<Rightarrow> string) \<Rightarrow> feature list \<Rightarrow> seeding_state \<times> zone_requirements
     \<Rightarrow> error + seeding_state \<times> zone_requirements" where
  "seed_hexes float_repr [] st = Inr st"
| "seed_hexes float_repr (hf # hex_features) st =
     and_then (seed_hex float_repr hf st) (seed_hexes float_repr hex_features)"

record tierb_dir =
  tierb_hex_cells_geojson :: "feature list"
  tierb_sites_geojson :: "feature list"
  tierb_requirements_by_zone :: zone_requirements

definition seed_tierb_main :: "(real \<Rightarrow> string) \<Rightarrow> tierb_dir \<Rightarrow> error + tierb_dir \<times> nat" where
  "seed_tierb_main float_repr d =
     (let hex_features = tierb_hex_cells_geojson d
      in if hex_features = [] then Inl SystemExit
         else
           let existing_features = tierb_sites_geojson d;
               kept_features = (if \<not> REPLACE_SITES_FILE then existing_features else []);
               sq = (if kept_features \<noteq> [] then next_site_seq kept_features else 1)
           in and_then (seed_hexes float_repr hex_features (\<lparr>seeded = [], seq = sq\<rparr>, Map.empty))
                (\<lambda>(st, by_zone).
                   Inr (d\<lparr>tierb_sites_geojson := kept_features @ seeded st,
                          tierb_requirements_by_zone := by_zone\<rparr>,
                        length (seeded st))))"

section \<open>Notions used in the statements\<close>

subsection \<open>Coverage\<close>

definition status_of :: "feature \<Rightarrow> json" where
  "status_of f = py_get (properties f) ''status''"

definition cell_of :: "feature \<Rightarrow> json" where
  "cell_of f = py_get (properties f) ''cell_id''"

definition is_tier_a :: "feature \<Rightarrow> bool" where
  "is_tier_a f = (py_get (properties f) ''tier'' = JStr ''A'')"

definition is_tier_b :: "feature \<Rightarrow> bool" where
  "is_tier_b f = (py_get (properties f) ''tier'' = JStr ''B'')"

definition is_alt :: "feature \<Rightarrow> bool" where
  "is_alt f = (py_get (properties f) ''notes'' = JStr ''ALT'')"

text \<open>A required (non-ALT) Tier-B site that is still a candidate and has a home cell.\<close>

definition required_candidate :: "feature \<Rightarrow> bool" where
  "required_candidate f =
     (is_tier_b f \<and> \<not> is_alt f \<and> status_of f = JStr ''CANDIDATE'' \<and> truthy (cell_of f))"

text \<open>
  The coverage set of a Tier-A site is \<open>covered_cells neighbor_map\<close> of its cell; the
  site covers a cell when it has a home cell itself and the cell is (as a key) in its
  coverage set.
\<close>

definition covers :: "(json \<rightharpoonup> json list) \<Rightarrow> feature \<Rightarrow> json \<Rightarrow> bool" where
  "covers neighbor_map a cell =
     (truthy (cell_of a) \<and> py_key cell \<in> py_key ` set (covered_cells neighbor_map (cell_of a)))"

text \<open>The Tier-A sites covering a cell, in input order.\<close>

definition covering :: "(json \<rightharpoonup> json list) \<Rightarrow> feature list \<Rightarrow> json \<Rightarrow> nat list" where
  "covering neighbor_map sites cell =
     filter (\<lambda>a. is_tier_a (sites ! a) \<and> covers neighbor_map (sites ! a) cell) [0..<length sites]"

text \<open>What the pass leaves at position \<open>i\<close> after the Tier-A sites \<open>as\<close> have been processed.\<close>

definition reduced :: "(json \<rightharpoonup> json list) \<Rightarrow> feature list \<Rightarrow> nat list \<Rightarrow> nat \<Rightarrow> feature" where
  "reduced neighbor_map sites as i =
     (if required_candidate (sites ! i)
      then (case filter (\<lambda>a. covers neighbor_map (sites ! a) (cell_of (sites ! i))) as of
              [] \<Rightarrow> sites ! i
            | a # _ \<Rightarrow> mark_satisfied (properties (sites ! a)) (sites ! i))
      else sites ! i)"

subsection \<open>A small data directory\<close>

text \<open>
  Three cells: H1 and H2 share the vertex \<open>(1, 1)\<close>, H9 is apart. Two Tier-A sites, in H1
  and in H2; a required Tier-B candidate in H2, an alternate in H1 and a required one in H9.
\<close>

definition ex_hex_cells :: "feature list" where
  "ex_hex_cells =
     [\<lparr>properties = map_of [(''cell_id'', JStr ''H1''), (''zone_id'', JStr ''Z1'')],
       geometry = Polygon [[(0, 0), (1, 0), (1, 1), (0, 0)]]\<rparr>,
      \<lparr>properties = map_of [(''cell_id'', JStr ''H2''), (''zone_id'', JStr ''Z1'')],
       geometry = Polygon [[(1, 1), (2, 1), (2, 2), (1, 1)]]\<rparr>,
      \<lparr>properties = map_of [(''cell_id'', JStr ''H9''), (''zone_id'', JStr ''Z2'')],
       geometry = Polygon [[(5, 5), (6, 5), (6, 6), (5, 5)]]\<rparr>]"

definition ex_sites :: "feature list" where
  "ex_sites =
     [\<lparr>properties = map_of [(''site_id'', JStr ''S_A_0001''), (''tier'', JStr ''A''),
         (''status'', JStr ''CANDIDATE''), (''cell_id'', JStr ''H1''), (''zone_id'', JStr ''Z1''),
         (''corridor_id'', JStr ''C1''), (''notes'', JStr [])],
       geometry = Point (1/2, 1/4)\<rparr>,
      \<lparr>properties = map_of [(''site_id'', JStr ''S_A_0002''), (''tier'', JStr ''A''),
         (''status'', JStr ''CANDIDATE''), (''cell_id'', JStr ''H2''), (''zone_id'', JStr ''Z1''),
         (''corridor_id'', JStr ''C2''), (''notes'', JStr [])],
       geometry = Point (3/2, 5/4)\<rparr>,
      \<lparr>properties = map_of [(''site_id'', JStr ''S_B_0001''), (''tier'', JStr ''B''),
         (''status'', JStr ''CANDIDATE''), (''cell_id'', JStr ''H2''), (''zone_id'', JStr ''Z1''),
         (''corridor_id'', JNull), (''notes'', JStr [])],
       geometry = Point (5/3, 4/3)\<rparr>,
      \<lparr>properties = map_of [(''site_id'', JStr ''S_B_0002''), (''tier'', JStr ''B''),
         (''status'', JStr ''CANDIDATE''), (''cell_id'', JStr ''H1''), (''zone_id'', JStr ''Z1''),
         (''corridor_id'', JNull), (''notes'', JStr ''ALT'')],
       geometry = Point (2/3, 1/3)\<rparr>,
      \<lparr>properties = map_of [(''site_id'', JStr ''S_B_0003''), (''tier'', JStr ''B''),
         (''status'', JStr ''CANDIDATE''), (''cell_id'', JStr ''H9''), (''zone_id'', JStr ''Z2''),
         (''corridor_id'', JNull), (''notes'', JStr [])],
       geometry = Point (17/3, 16/3)\<rparr>]"

definition ex_neighbor_map :: "json \<rightharpoonup> json list" where
  "ex_neighbor_map =
     [JStr ''H1'' \<mapsto> [JStr ''H2'', JStr ''H1''], JStr ''H2'' \<mapsto> [JStr ''H1'', JStr ''H2''],
      JStr ''H9'' \<mapsto> [JStr ''H9'']]"

definition ex_dir :: data_dir where
  "ex_dir = \<lparr>hex_cells_geojson = ex_hex_cells, sites_geojson = ex_sites,
     tierb_after_tiera_by_zone = Map.empty\<rparr>"

subsection \<open>A cell with blank fields\<close>

definition blank_weight_cell :: props where
  "blank_weight_cell = (hex_cell_props 1)(''zone_id'' \<mapsto> JStr ''Z_EAST_RIDGE_METRO'',
      ''elev_adv_avail'' \<mapsto> JStr [], ''pop_weight'' \<mapsto> JStr [], ''critical_weight'' \<mapsto> JNull)"


subsection \<open>Adjacency\<close>

text \<open>The keys of the cells that have a cell id, in input order.\<close>

definition cell_keys :: "feature list \<Rightarrow> json list" where
  "cell_keys fs = map (\<lambda>f. py_key (cell_of f)) (filter (\<lambda>f. truthy (cell_of f)) fs)"

text \<open>Every cell listed under a vertex has that vertex, and conversely.\<close>

definition index_consistent :: "neighbor_index \<Rightarrow> bool" where
  "index_consistent st =
     (\<forall>v c. c \<in> set (fst st v) \<longleftrightarrow> (\<exists>vs. snd st c = Some vs \<and> v \<in> set vs))"

subsection \<open>Sampling\<close>

text \<open>
  The point at arc length \<open>d\<close> along a polyline, by recursion on the polyline: it lies on
  the first segment if that segment is at least \<open>d\<close> miles long, at the fraction
  \<open>d / length\<close> of it; otherwise it is the point at arc length \<open>d\<close> minus the segment's
  length along the rest. Past the end it is the last vertex.
\<close>

fun arc_point :: "vertex \<Rightarrow> vertex list \<Rightarrow> real \<Rightarrow> vertex" where
  "arc_point a [] d = a"
| "arc_point a (b # rest) d =
     (if d \<le> segment_len_mi a b
      then interpolate_on_segment a b (if segment_len_mi a b = 0 then 0 else d / segment_len_mi a b)
      else arc_point b rest (d - segment_len_mi a b))"

text \<open>The total arc length, segment by segment.\<close>

fun arc_length :: "vertex \<Rightarrow> vertex list \<Rightarrow> real" where
  "arc_length a [] = 0"
| "arc_length a (b # rest) = segment_len_mi a b + arc_length b rest"

text \<open>A straight line of 10 miles, along the meridian of longitude 0 from the equator.\<close>

definition ten_mile_line :: "vertex list" where
  "ten_mile_line = [(0, 0), (0, 10 / 69)]"

subsection \<open>Seeding\<close>

definition site_id_of :: "feature \<Rightarrow> json" where
  "site_id_of f = py_get (properties f) ''site_id''"

text \<open>The ids \<^verbatim>\<open>S_A_0001\<close>, \<^verbatim>\<open>S_A_0002\<close>, ... with the numbers from \<open>lo\<close> up to \<open>hi - 1\<close>.\<close>

definition tiera_ids :: "nat \<Rightarrow> nat \<Rightarrow> json list" where
  "tiera_ids lo hi = map (\<lambda>k. JStr (''S_A_'' @ zero_pad 4 k)) [lo..<hi]"

definition tierb_ids :: "nat \<Rightarrow> nat \<Rightarrow> json list" where
  "tierb_ids lo hi = map (\<lambda>k. JStr (''S_B_'' @ zero_pad 4 k)) [lo..<hi]"

text \<open>
  A corridor from \<open>(0, 0)\<close> to \<open>(0, 4)\<close> with targets 2 and 3, so three sampled points,
  at latitudes 1, 2 and 3; two square cells, around the first and around the third.
\<close>

definition ex_corridor :: feature where
  "ex_corridor =
     \<lparr>properties = map_of [(''corridor_id'', JStr ''C1''), (''corridor_name'', JStr ''North''),
        (''tierA_target_sites_min'', JInt 2), (''tierA_target_sites_max'', JInt 3)],
      geometry = LineString [(0, 0), (0, 4)]\<rparr>"

definition ex_squares :: "feature list" where
  "ex_squares =
     [\<lparr>properties = map_of [(''cell_id'', JStr ''H_000001''), (''zone_id'', JStr ''Z1'')],
       geometry = Polygon [[(-1, 1/2), (1, 1/2), (1, 3/2), (-1, 3/2), (-1, 1/2)]]\<rparr>,
      \<lparr>properties = map_of [(''cell_id'', JStr ''H_000002''), (''zone_id'', JStr ''Z2'')],
       geometry = Polygon [[(-1, 5/2), (1, 5/2), (1, 7/2), (-1, 7/2), (-1, 5/2)]]\<rparr>]"

definition ex_tiera_dir :: tiera_dir where
  "ex_tiera_dir = \<lparr>corridors_geojson = [ex_corridor], tiera_hex_cells_geojson = ex_squares,
     tiera_sites_geojson = ex_sites, tiera_targets_by_corridor = Map.empty\<rparr>"

text \<open>The sequence number is one more than the number of seeded sites, whose ids count up from 1.\<close>

definition numbered :: "seeding_state \<Rightarrow> bool" where
  "numbered st = (seq st = length (seeded st) + 1
     \<and> map site_id_of (seeded st) = tiera_ids 1 (length (seeded st) + 1))"


text \<open>The Tier-B counterpart: ids count up from 1, and every seeded site is a Tier-B candidate.\<close>

definition tierb_candidate :: "feature \<Rightarrow> bool" where
  "tierb_candidate f =
     (py_get (properties f) ''tier'' = JStr ''B'' \<and> py_get (properties f) ''status'' = JStr ''CANDIDATE'')"

definition numbered_b :: "seeding_state \<Rightarrow> bool" where
  "numbered_b st = (seq st = length (seeded st) + 1
     \<and> map site_id_of (seeded st) = tierb_ids 1 (length (seeded st) + 1)
     \<and> list_all tierb_candidate (seeded st))"

text \<open>A scored cell of class LOW (two required sites and one alternate), and a data directory
  whose sites file holds the sites of the small data directory, two of them Tier-A.\<close>

definition ex_scored_hex :: feature where
  "ex_scored_hex =
     \<lparr>properties = map_of [(''cell_id'', JStr ''H_000001''), (''zone_id'', JStr ''Z1''),
        (''tierB_sites_required'', JInt 2), (''tierB_alternate_required'', JInt 1)],
      geometry = Polygon [[(-1, 1/2), (1, 1/2), (1, 3/2), (-1, 3/2), (-1, 1/2)]]\<rparr>"

definition ex_tierb_dir :: tierb_dir where
  "ex_tierb_dir = \<lparr>tierb_hex_cells_geojson = [ex_scored_hex], tierb_sites_geojson = ex_sites,
     tierb_requirements_by_zone = Map.empty\<rparr>"
section \<open>Properties of the scoring engine\<close>

lemma clamp_max_min: "clamp x 0 100 = max 0 (min 100 x)"
  by (simp add: clamp_def)

text \<open>
  Claim C3. The confidence score of a cell whose four flags convert to the integers
  \<open>elev\<close>, \<open>tall\<close>, \<open>clutter\<close>, \<open>los\<close> is \<open>25 los + 20 elev + 20 tall + 15 (1 - clutter)\<close>
  clamped to the interval from 0 to 100; with 0/1 flags it is at most 80; the all-favourable
  cell scores 80 and the all-unfavourable cell scores 0; the class is HIGH exactly from 70,
  MED exactly from 40 up to 69, LOW below.
\<close>

theorem confidence_score_formula:
  assumes "py_int (py_get_default p ''elev_adv_avail'' (JInt 0)) = Inr elev"
    and "py_int (py_get_default p ''tall_struct_avail'' (JInt 0)) = Inr tall"
    and "py_int (py_get_default p ''clutter_high'' (JInt 0)) = Inr clutter"
    and "py_int (py_get_default p ''backbone_los_likely'' (JInt 0)) = Inr los"
  shows "compute_confidence_score p
           = Inr (max 0 (min 100 (25 * los + 20 * elev + 20 * tall + 15 * (1 - clutter))))
       \<and> ({elev, tall, clutter, los} \<subseteq> {0, 1} \<longrightarrow>
            compute_confidence_score p = Inr (25 * los + 20 * elev + 20 * tall + 15 * (1 - clutter))
          \<and> 25 * los + 20 * elev + 20 * tall + 15 * (1 - clutter) \<le> 80)
       \<and> compute_confidence_score
            (map_of [(''elev_adv_avail'', JInt 1), (''tall_struct_avail'', JInt 1),
                     (''clutter_high'', JInt 0), (''backbone_los_likely'', JInt 1)]) = Inr 80
       \<and> compute_confidence_score
            (map_of [(''elev_adv_avail'', JInt 0), (''tall_struct_avail'', JInt 0),
                     (''clutter_high'', JInt 1), (''backbone_los_likely'', JInt 0)]) = Inr 0
       \<and> (\<forall>s. (confidence_class s = ''HIGH'' \<longleftrightarrow> s \<ge> 70)
             \<and> (confidence_class s = ''MED'' \<longleftrightarrow> 40 \<le> s \<and> s < 70)
             \<and> (confidence_class s = ''LOW'' \<longleftrightarrow> s < 40))"
proof -
  have score: "compute_confidence_score p
      = Inr (clamp (25 * los + 20 * elev + 20 * tall + 15 * (1 - clutter)) 0 100)"
    using assms by (simp add: compute_confidence_score_def and_then_def)
  have general: "compute_confidence_score p
      = Inr (max 0 (min 100 (25 * los + 20 * elev + 20 * tall + 15 * (1 - clutter))))"
    using score by (simp add: clamp_max_min)
  have binary: "{elev, tall, clutter, los} \<subseteq> {0, 1} \<longrightarrow>
      compute_confidence_score p = Inr (25 * los + 20 * elev + 20 * tall + 15 * (1 - clutter))
      \<and> 25 * los + 20 * elev + 20 * tall + 15 * (1 - clutter) \<le> 80"
    using score by (auto simp add: clamp_def)
  have best: "compute_confidence_score
      (map_of [(''elev_adv_avail'', JInt 1), (''tall_struct_avail'', JInt 1),
               (''clutter_high'', JInt 0), (''backbone_los_likely'', JInt 1)]) = Inr 80"
    by (simp add: compute_confidence_score_def and_then_def py_get_default_def clamp_def)
  have worst: "compute_confidence_score
      (map_of [(''elev_adv_avail'', JInt 0), (''tall_struct_avail'', JInt 0),
               (''clutter_high'', JInt 1), (''backbone_los_likely'', JInt 0)]) = Inr 0"
    by (simp add: compute_confidence_score_def and_then_def py_get_default_def clamp_def)
  have classes: "\<forall>s. (confidence_class s = ''HIGH'' \<longleftrightarrow> s \<ge> 70)
      \<and> (confidence_class s = ''MED'' \<longleftrightarrow> 40 \<le> s \<and> s < 70)
      \<and> (confidence_class s = ''LOW'' \<longleftrightarrow> s < 40)"
    by (simp add: confidence_class_def)
  from general binary best worst classes show ?thesis by blast
qed

theorem confidence_score_formula_witness:
  "compute_confidence_score
     (map_of [(''elev_adv_avail'', JInt 1), (''tall_struct_avail'', JBool True),
              (''clutter_high'', JFloat 1), (''backbone_los_likely'', JStr ''1'')]) = Inr 65
   \<and> confidence_class 65 = ''MED''"
proof -
  let ?p = "map_of [(''elev_adv_avail'', JInt 1), (''tall_struct_avail'', JBool True),
              (''clutter_high'', JFloat 1), (''backbone_los_likely'', JStr ''1'')]"
  have e: "py_int (py_get_default ?p ''elev_adv_avail'' (JInt 0)) = Inr 1"
    by (simp add: py_get_default_def)
  have t: "py_int (py_get_default ?p ''tall_struct_avail'' (JInt 0)) = Inr 1"
    by (simp add: py_get_default_def)
  have c: "py_int (py_get_default ?p ''clutter_high'' (JInt 0)) = Inr 1"
    by (simp add: py_get_default_def)
  have l: "py_int (py_get_default ?p ''backbone_los_likely'' (JInt 0)) = Inr 1"
    by (simp add: py_get_default_def int_of_str_def strip_def is_space_def is_digit_def
        digit_val_def)
  from confidence_score_formula [OF e t c l] show ?thesis
    by simp
qed


subsection \<open>What scaffolding does to a cell\<close>

lemma fill_blank_effect:
  assumes "fill_blank blank d ks (p, n) = Inr (p', n')"
    and "\<And>p k k' v. k \<noteq> k' \<Longrightarrow> blank (p(k' \<mapsto> v)) k = blank p k"
    and "distinct ks"
  shows "p' k = (if k \<in> set ks \<and> blank p k then d k else p k)"
  using assms(1,3)
proof (induction ks arbitrary: p n)
  case Nil
  then show ?case by simp
next
  case (Cons k1 ks)
  show ?case
  proof (cases "blank p k1")
    case False
    with Cons.prems have "fill_blank blank d ks (p, n) = Inr (p', n')" "distinct ks"
      by simp_all
    from Cons.IH [OF this] False show ?thesis by auto
  next
    case True
    with Cons.prems obtain v where v: "d k1 = Some v"
      and run: "fill_blank blank d ks (p(k1 \<mapsto> v), n + 1) = Inr (p', n')"
      by (auto split: option.splits)
    from Cons.prems have d: "distinct ks" "k1 \<notin> set ks" by simp_all
    note IH = Cons.IH [OF run d(1)]
    show ?thesis
    proof (cases "k = k1")
      case same: True
      with IH d(2) have "p' k = Some v" by simp
      with same True v show ?thesis by simp
    next
      case other: False
      then have eqs: "blank (p(k1 \<mapsto> v)) k = blank p k" "(p(k1 \<mapsto> v)) k = p k"
        by (simp_all add: assms(2))
      from IH have "p' k = (if k \<in> set ks \<and> blank p k then d k else p k)"
        by (simp only: eqs)
      with other show ?thesis by simp
    qed
  qed
qed

lemma blank_local:
  "k \<noteq> k' \<Longrightarrow> flag_blank (p(k' \<mapsto> v)) k = flag_blank p k"
  "k \<noteq> k' \<Longrightarrow> weight_blank (p(k' \<mapsto> v)) k = weight_blank p k"
  by (simp_all add: flag_blank_def weight_blank_def py_get_def)

lemma zone_defaults_complete:
  "k \<in> set FLAG_KEYS \<union> set WEIGHT_KEYS \<Longrightarrow> \<exists>v. zone_defaults_for zid k = Some v"
  by (auto simp add: zone_defaults_for_def ZONE_DEFAULTS_def Z_WEST_HIGH_RELIEF_def
      Z_CENTRAL_LOW_RELIEF_def Z_EAST_RIDGE_METRO_def Z_UNASSIGNED_def FLAG_KEYS_def
      WEIGHT_KEYS_def split: json.splits)

lemma fill_blank_total:
  assumes "\<And>k. k \<in> set ks \<Longrightarrow> \<exists>v. d k = Some v"
  shows "\<exists>st'. fill_blank blank d ks (p, n) = Inr st'"
  using assms
proof (induction ks arbitrary: p n)
  case Nil
  then show ?case by simp
next
  case (Cons k ks)
  from Cons.prems [of k] obtain v where v: "d k = Some v" by auto
  from Cons.prems have rest: "\<And>k'. k' \<in> set ks \<Longrightarrow> \<exists>v. d k' = Some v" by simp
  from Cons.IH [OF rest] v show ?case by simp
qed

text \<open>
  Scaffolding always succeeds. It sets a flag that is missing, \<^verbatim>\<open>None\<close> or the empty
  string, and a weight that is missing or \<^verbatim>\<open>None\<close>, to the value of the zone's default
  table, and it leaves every other property as it is: in particular a flag or weight that
  holds 0 or 0.0, and a weight that holds the empty string.
\<close>

lemma scaffold_total: "\<exists>st'. scaffold (p, n) = Inr st'"
proof -
  let ?d = "zone_defaults_for (py_get_default p ''zone_id'' (JStr []))"
  have "\<exists>st'. fill_blank flag_blank ?d FLAG_KEYS (p, n) = Inr st'"
    by (rule fill_blank_total) (simp add: zone_defaults_complete)
  then obtain p1 n1 where 1: "fill_blank flag_blank ?d FLAG_KEYS (p, n) = Inr (p1, n1)"
    by force
  have "\<exists>st'. fill_blank weight_blank ?d WEIGHT_KEYS (p1, n1) = Inr st'"
    by (rule fill_blank_total) (simp add: zone_defaults_complete)
  with 1 show ?thesis
    by (simp add: scaffold_def Let_def and_then_def)
qed

lemma scaffold_effect:
  assumes "scaffold (p, n) = Inr (p', n')"
  shows "p' k = (if (k \<in> set FLAG_KEYS \<and> flag_blank p k) \<or> (k \<in> set WEIGHT_KEYS \<and> weight_blank p k)
                 then zone_defaults_for (py_get_default p ''zone_id'' (JStr [])) k
                 else p k)"
proof -
  let ?d = "zone_defaults_for (py_get_default p ''zone_id'' (JStr []))"
  from assms obtain p1 n1 where 1: "fill_blank flag_blank ?d FLAG_KEYS (p, n) = Inr (p1, n1)"
    and 2: "fill_blank weight_blank ?d WEIGHT_KEYS (p1, n1) = Inr (p', n')"
    by (auto simp add: scaffold_def Let_def and_then_def split: sum.splits)
  have f: "p1 k = (if k \<in> set FLAG_KEYS \<and> flag_blank p k then ?d k else p k)" for k
    by (rule fill_blank_effect [OF 1 blank_local(1)]) (simp_all add: FLAG_KEYS_def)
  have w: "p' k = (if k \<in> set WEIGHT_KEYS \<and> weight_blank p1 k then ?d k else p1 k)"
    by (rule fill_blank_effect [OF 2 blank_local(2)]) (simp_all add: WEIGHT_KEYS_def)
  have disj: "k \<in> set WEIGHT_KEYS \<Longrightarrow> k \<notin> set FLAG_KEYS"
    by (auto simp add: FLAG_KEYS_def WEIGHT_KEYS_def)
  have "k \<in> set WEIGHT_KEYS \<Longrightarrow> weight_blank p1 k = weight_blank p k"
    using f [of k] disj by (simp add: weight_blank_def py_get_def)
  with w f [of k] disj show ?thesis by auto
qed

subsection \<open>Scaffolding\<close>

lemma fill_blank_none_blank:
  "(\<And>k. k \<in> set ks \<Longrightarrow> \<not> blank p k) \<Longrightarrow> fill_blank blank d ks (p, n) = Inr (p, n)"
  by (induction ks) auto

lemma hex_flags_present:
  assumes "k \<in> set FLAG_KEYS"
  shows "\<not> flag_blank ((hex_cell_props idx)(''zone_id'' \<mapsto> zid, ''cell_radius_mi'' \<mapsto> r, ''notes'' \<mapsto> nt)) k"
  using assms by (auto simp add: FLAG_KEYS_def flag_blank_def hex_cell_props_def py_get_def)

lemma hex_weights_present:
  assumes "k \<in> set WEIGHT_KEYS"
  shows "\<not> weight_blank ((hex_cell_props idx)(''zone_id'' \<mapsto> zid, ''cell_radius_mi'' \<mapsto> r, ''notes'' \<mapsto> nt)) k"
  using assms by (auto simp add: WEIGHT_KEYS_def weight_blank_def hex_cell_props_def py_get_def)

text \<open>
  Claim C9. A cell as the tessellator emits it has the four flags 0 and the two weights 0.0.
  Whatever zone id (and radius and notes) the zone passes have given it, scaffolding changes
  no property of the cell and counts no field as scaffolded; its confidence score is 15 and
  its class LOW.
\<close>

theorem tessellated_cell_never_scaffolded:
  "scaffold ((hex_cell_props idx)(''zone_id'' \<mapsto> zid, ''cell_radius_mi'' \<mapsto> r, ''notes'' \<mapsto> nt), n)
     = Inr ((hex_cell_props idx)(''zone_id'' \<mapsto> zid, ''cell_radius_mi'' \<mapsto> r, ''notes'' \<mapsto> nt), n)
   \<and> compute_confidence_score
       ((hex_cell_props idx)(''zone_id'' \<mapsto> zid, ''cell_radius_mi'' \<mapsto> r, ''notes'' \<mapsto> nt)) = Inr 15
   \<and> confidence_class 15 = ''LOW''
   \<and> hex_cell_props idx ''elev_adv_avail'' = Some (JInt 0)
   \<and> hex_cell_props idx ''tall_struct_avail'' = Some (JInt 0)
   \<and> hex_cell_props idx ''clutter_high'' = Some (JInt 0)
   \<and> hex_cell_props idx ''backbone_los_likely'' = Some (JInt 0)
   \<and> hex_cell_props idx ''pop_weight'' = Some (JFloat 0.0)
   \<and> hex_cell_props idx ''critical_weight'' = Some (JFloat 0.0)"
proof -
  let ?p = "(hex_cell_props idx)(''zone_id'' \<mapsto> zid, ''cell_radius_mi'' \<mapsto> r, ''notes'' \<mapsto> nt)"
  have "scaffold (?p, n) = Inr (?p, n)"
    unfolding scaffold_def Let_def fst_conv
    by (simp only: fill_blank_none_blank [of FLAG_KEYS flag_blank, OF hex_flags_present]
        fill_blank_none_blank [of WEIGHT_KEYS weight_blank, OF hex_weights_present] and_then_def sum.case)
  moreover have "compute_confidence_score ?p = Inr 15"
    by (simp add: compute_confidence_score_def and_then_def py_get_default_def hex_cell_props_def clamp_def)
  moreover have "confidence_class 15 = ''LOW''"
    by (simp add: confidence_class_def)
  ultimately show ?thesis
    by (simp add: hex_cell_props_def)
qed

text \<open>
  Claim C4, at the input where the code departs from it. The cell has the empty string in
  the flag \<open>elev_adv_avail\<close> and in the weight \<open>pop_weight\<close>, and \<^verbatim>\<open>None\<close> in
  \<open>critical_weight\<close>. Scaffolding fills the flag and the \<^verbatim>\<open>None\<close> weight from
  the zone defaults (two fields), and leaves the empty string in \<open>pop_weight\<close>, where the
  zone default is 0.6.
\<close>

theorem scaffold_blank_string_weight_kept:
  "scaffold (blank_weight_cell, 0)
     = Inr (blank_weight_cell(''elev_adv_avail'' \<mapsto> JInt 1, ''critical_weight'' \<mapsto> JFloat 0.4), 2)
   \<and> (blank_weight_cell(''elev_adv_avail'' \<mapsto> JInt 1, ''critical_weight'' \<mapsto> JFloat 0.4)) ''pop_weight''
       = Some (JStr [])
   \<and> Z_EAST_RIDGE_METRO ''pop_weight'' = Some (JFloat 0.6)"
  by (simp add: scaffold_def blank_weight_cell_def hex_cell_props_def py_get_default_def
      zone_defaults_for_def ZONE_DEFAULTS_def FLAG_KEYS_def WEIGHT_KEYS_def flag_blank_def
      weight_blank_def py_get_def and_then_def Z_EAST_RIDGE_METRO_def)

section \<open>Properties of the coverage reducer\<close>

lemma status_mark_satisfied [simp]:
  "status_of (mark_satisfied props f) = JStr ''SATISFIED''"
  by (simp add: status_of_def mark_satisfied_def py_get_def)

lemma py_key_idem [simp]: "py_key (py_key v) = py_key v"
  by (cases v) auto

lemma truthy_py_key [simp]: "truthy (py_key v) = truthy v"
  by (cases v) auto

subsection \<open>Grouping\<close>

lemma group_fold_tiera:
  "tiera_features (fold (group_site sites) is g)
     = tiera_features g @ filter (\<lambda>i. is_tier_a (sites ! i)) is"
  by (induction "is" arbitrary: g) (auto simp add: group_site_def Let_def is_tier_a_def)

lemma group_fold_required:
  "tierb_required_features (fold (group_site sites) is g)
     = tierb_required_features g @ filter (\<lambda>i. is_tier_b (sites ! i) \<and> \<not> is_alt (sites ! i)) is"
  by (induction "is" arbitrary: g) (auto simp add: group_site_def Let_def is_tier_b_def is_alt_def)

lemma group_fold_alt:
  "tierb_alt_features (fold (group_site sites) is g)
     = tierb_alt_features g @ filter (\<lambda>i. is_tier_b (sites ! i) \<and> is_alt (sites ! i)) is"
  by (induction "is" arbitrary: g) (auto simp add: group_site_def Let_def is_tier_b_def is_alt_def)

lemma group_fold_candidates:
  "tierb_candidates_by_cell (fold (group_site sites) is g) k
     = tierb_candidates_by_cell g k
       @ filter (\<lambda>i. required_candidate (sites ! i) \<and> py_key (cell_of (sites ! i)) = k) is"
  by (induction "is" arbitrary: g)
    (auto simp add: group_site_def Let_def required_candidate_def is_tier_b_def is_alt_def
      status_of_def cell_of_def)

lemma tiera_features_group_sites:
  "tiera_features (group_sites sites) = filter (\<lambda>i. is_tier_a (sites ! i)) [0..<length sites]"
  by (simp add: group_sites_def group_fold_tiera no_groups_def)

lemma required_features_group_sites:
  "tierb_required_features (group_sites sites)
     = filter (\<lambda>i. is_tier_b (sites ! i) \<and> \<not> is_alt (sites ! i)) [0..<length sites]"
  by (simp add: group_sites_def group_fold_required no_groups_def)

lemma alt_features_group_sites:
  "tierb_alt_features (group_sites sites)
     = filter (\<lambda>i. is_tier_b (sites ! i) \<and> is_alt (sites ! i)) [0..<length sites]"
  by (simp add: group_sites_def group_fold_alt no_groups_def)

lemma candidates_group_sites:
  "tierb_candidates_by_cell (group_sites sites) k
     = filter (\<lambda>i. required_candidate (sites ! i) \<and> py_key (cell_of (sites ! i)) = k)
         [0..<length sites]"
  by (simp add: group_sites_def group_fold_candidates no_groups_def)

subsection \<open>The loops\<close>

lemma satisfy_candidates_store:
  assumes "\<forall>j \<in> set js. j < length sites"
  shows "length (fst (satisfy_candidates props js (sites, n, b))) = length sites
    \<and> (\<forall>i < length sites. fst (satisfy_candidates props js (sites, n, b)) ! i
          = (if i \<in> set js \<and> status_of (sites ! i) = JStr ''CANDIDATE''
             then mark_satisfied props (sites ! i) else sites ! i))"
  using assms
proof (induction js arbitrary: sites n b)
  case Nil
  then show ?case by simp
next
  case (Cons j js)
  show ?case
  proof (cases "status_of (sites ! j) = JStr ''CANDIDATE''")
    case False
    with Cons.IH [of sites n b] Cons.prems show ?thesis
      by (auto simp add: status_of_def)
  next
    case True
    let ?s = "sites[j := mark_satisfied props (sites ! j)]"
    have "\<forall>j \<in> set js. j < length ?s" using Cons.prems by simp
    from Cons.IH [OF this, of "n + 1" True] True Cons.prems show ?thesis
      by (auto simp add: status_of_def [symmetric] nth_list_update)
  qed
qed

lemma cover_cells_store:
  assumes "\<forall>c. \<forall>j \<in> set (by_cell c). j < length sites"
  shows "length (fst (cover_cells by_cell props cs (sites, n, b))) = length sites
    \<and> (\<forall>i < length sites. fst (cover_cells by_cell props cs (sites, n, b)) ! i
          = (if (\<exists>c \<in> set cs. i \<in> set (by_cell (py_key c))) \<and> status_of (sites ! i) = JStr ''CANDIDATE''
             then mark_satisfied props (sites ! i) else sites ! i))"
  using assms
proof (induction cs arbitrary: sites n b)
  case Nil
  then show ?case by simp
next
  case (Cons c cs)
  obtain s1 n1 b1 where step: "satisfy_candidates props (by_cell (py_key c)) (sites, n, b) = (s1, n1, b1)"
    by (cases "satisfy_candidates props (by_cell (py_key c)) (sites, n, b)") auto
  have js: "\<forall>j \<in> set (by_cell (py_key c)). j < length sites" using Cons.prems by blast
  from satisfy_candidates_store [OF js, of props n b] step
  have len1: "length s1 = length sites"
    and nth1: "\<And>i. i < length sites \<Longrightarrow> s1 ! i
          = (if i \<in> set (by_cell (py_key c)) \<and> status_of (sites ! i) = JStr ''CANDIDATE''
             then mark_satisfied props (sites ! i) else sites ! i)"
    by auto
  have "\<forall>c. \<forall>j \<in> set (by_cell c). j < length s1" using Cons.prems len1 by simp
  from Cons.IH [OF this, of n1 b1] len1 nth1 step show ?case
    by auto
qed

lemma candidates_in_range:
  "\<forall>c. \<forall>j \<in> set (tierb_candidates_by_cell (group_sites sites) c). j < length sites"
  by (simp add: candidates_group_sites)

lemma covered_candidates_iff:
  "i < length sites \<Longrightarrow> truthy (cell_of a) \<Longrightarrow>
   (\<exists>c \<in> set (covered_cells nm (cell_of a)).
       i \<in> set (tierb_candidates_by_cell (group_sites sites) (py_key c)))
   = (required_candidate (sites ! i) \<and> covers nm a (cell_of (sites ! i)))"
  by (auto simp add: candidates_group_sites covers_def)

lemma reduced_not_candidate:
  "\<not> required_candidate (sites ! i) \<Longrightarrow> reduced nm sites as i = sites ! i"
  by (simp add: reduced_def)

lemma tier_a_not_candidate: "is_tier_a f \<Longrightarrow> \<not> required_candidate f"
  by (auto simp add: is_tier_a_def required_candidate_def is_tier_b_def)

lemma status_reduced:
  "required_candidate (sites ! i) \<Longrightarrow>
   (status_of (reduced nm sites as i) = JStr ''CANDIDATE'')
     = (filter (\<lambda>a. covers nm (sites ! a) (cell_of (sites ! i))) as = [])"
  by (auto simp add: reduced_def required_candidate_def split: list.splits)

lemma reduced_snoc:
  "reduced nm sites (as @ [a]) i
     = (if required_candidate (sites ! i) \<and> covers nm (sites ! a) (cell_of (sites ! i))
           \<and> filter (\<lambda>a. covers nm (sites ! a) (cell_of (sites ! i))) as = []
        then mark_satisfied (properties (sites ! a)) (sites ! i)
        else reduced nm sites as i)"
  by (auto simp add: reduced_def split: list.splits)

lemma apply_tiera_store:
  assumes len: "length (store st) = length sites"
    and inv: "\<forall>i < length sites. store st ! i = reduced nm sites as i"
    and a: "a < length sites" "is_tier_a (sites ! a)"
  shows "length (store (apply_tiera nm (group_sites sites) a st)) = length sites
    \<and> (\<forall>i < length sites. store (apply_tiera nm (group_sites sites) a st) ! i
          = reduced nm sites (as @ [a]) i)"
proof -
  have same: "store st ! a = sites ! a"
    using inv a by (simp add: reduced_not_candidate tier_a_not_candidate)
  show ?thesis
  proof (cases "truthy (cell_of (sites ! a))")
    case False
    then have "apply_tiera nm (group_sites sites) a st = st"
      by (simp add: apply_tiera_def Let_def same cell_of_def)
    moreover have "\<And>i. reduced nm sites (as @ [a]) i = reduced nm sites as i"
      using False by (simp add: reduced_snoc covers_def)
    ultimately show ?thesis using len inv by simp
  next
    case True
    let ?r = "cover_cells (tierb_candidates_by_cell (group_sites sites)) (properties (sites ! a))
                (covered_cells nm (cell_of (sites ! a))) (store st, satisfied_required st, False)"
    have st': "store (apply_tiera nm (group_sites sites) a st) = fst ?r"
      using True by (simp add: apply_tiera_def Let_def same cell_of_def [symmetric] split: prod.splits)
    have rng: "\<forall>c. \<forall>j \<in> set (tierb_candidates_by_cell (group_sites sites) c). j < length (store st)"
      using candidates_in_range [of sites] len by simp
    note cc = cover_cells_store [OF rng, of "properties (sites ! a)"
        "covered_cells nm (cell_of (sites ! a))" "satisfied_required st" False]
    have "\<forall>i < length sites. fst ?r ! i = reduced nm sites (as @ [a]) i"
    proof (intro allI impI)
      fix i assume i: "i < length sites"
      show "fst ?r ! i = reduced nm sites (as @ [a]) i"
      proof (cases "required_candidate (sites ! i)")
        case False
        then show ?thesis
          using cc i len inv covered_candidates_iff [OF i True, of nm]
          by (simp add: reduced_not_candidate)
      next
        case rc: True
        show ?thesis
          using cc i len inv covered_candidates_iff [OF i True, of nm] status_reduced [OF rc, of nm as]
          by (simp add: reduced_snoc) (simp add: reduced_def rc)
      qed
    qed
    with cc len st' show ?thesis by simp
  qed
qed

lemma fold_apply_tiera_store:
  assumes "\<forall>a \<in> set as. a < length sites \<and> is_tier_a (sites ! a)"
  shows "length (store (fold (apply_tiera nm (group_sites sites)) as
                   \<lparr>store = sites, satisfied_required = 0, tiera_used = []\<rparr>)) = length sites
    \<and> (\<forall>i < length sites. store (fold (apply_tiera nm (group_sites sites)) as
                   \<lparr>store = sites, satisfied_required = 0, tiera_used = []\<rparr>) ! i
          = reduced nm sites as i)"
  using assms
proof (induction as rule: rev_induct)
  case Nil
  then show ?case by (simp add: reduced_def)
next
  case (snoc a as)
  then have IH: "length (store (fold (apply_tiera nm (group_sites sites)) as
                   \<lparr>store = sites, satisfied_required = 0, tiera_used = []\<rparr>)) = length sites"
     "\<forall>i < length sites. store (fold (apply_tiera nm (group_sites sites)) as
                   \<lparr>store = sites, satisfied_required = 0, tiera_used = []\<rparr>) ! i
          = reduced nm sites as i"
    by auto
  from snoc.prems have a: "a < length sites" "is_tier_a (sites ! a)" by auto
  from apply_tiera_store [OF IH a] show ?case by simp
qed

text \<open>The store after the pass, position by position.\<close>

lemma coverage_pass_store:
  "length (store (coverage_pass nm sites)) = length sites"
  "i < length sites \<Longrightarrow>
   store (coverage_pass nm sites) ! i
     = (if required_candidate (sites ! i)
        then (case covering nm sites (cell_of (sites ! i)) of
                [] \<Rightarrow> sites ! i
              | a # _ \<Rightarrow> mark_satisfied (properties (sites ! a)) (sites ! i))
        else sites ! i)"
proof -
  have tier: "\<forall>a \<in> set (tiera_features (group_sites sites)). a < length sites \<and> is_tier_a (sites ! a)"
    by (simp add: tiera_features_group_sites)
  note f = fold_apply_tiera_store [OF tier, of nm]
  show "length (store (coverage_pass nm sites)) = length sites"
    using f by (simp add: coverage_pass_def Let_def)
  show "store (coverage_pass nm sites) ! i
     = (if required_candidate (sites ! i)
        then (case covering nm sites (cell_of (sites ! i)) of
                [] \<Rightarrow> sites ! i
              | a # _ \<Rightarrow> mark_satisfied (properties (sites ! a)) (sites ! i))
        else sites ! i)" if "i < length sites"
    using f that
    by (simp add: coverage_pass_def Let_def reduced_def tiera_features_group_sites covering_def)
qed

lemma first_of_filter_upt:
  assumes "filter P [0..<n] = a # rest"
  shows "P a \<and> a < n \<and> (\<forall>a' < a. \<not> P a')"
proof -
  have mem: "set (filter P [0..<n]) = set (a # rest)" using assms by simp
  then have a: "P a" "a < n" by auto
  have "sorted (filter P [0..<n])"
    by (rule sorted_wrt_filter) simp
  then have le: "\<forall>x \<in> set rest. a \<le> x" using assms by simp
  have "\<not> P a'" if "a' < a" for a'
  proof
    assume "P a'"
    with that a have "a' \<in> set (filter P [0..<n])" by simp
    with mem have "a' = a \<or> a' \<in> set rest" by simp
    with le that show False by auto
  qed
  with a show ?thesis by blast
qed

lemma mark_satisfied_frame:
  "geometry (mark_satisfied props f) = geometry f"
  "k \<notin> {''status'', ''satisfied_by'', ''satisfied_corridor_id''} \<Longrightarrow>
     properties (mark_satisfied props f) k = properties f k"
  by (auto simp add: mark_satisfied_def)

lemma coverage_pass_cases:
  assumes "i < length sites"
  shows "store (coverage_pass nm sites) ! i = sites ! i
    \<or> (required_candidate (sites ! i)
        \<and> (\<exists>a \<in> set (covering nm sites (cell_of (sites ! i))).
              store (coverage_pass nm sites) ! i = mark_satisfied (properties (sites ! a)) (sites ! i)))"
  using coverage_pass_store(2) [OF assms, of nm]
  by (auto split: list.splits)

lemma coverage_pass_keeps:
  assumes "i < length sites"
  shows "py_get (properties (store (coverage_pass nm sites) ! i)) ''tier'' = py_get (properties (sites ! i)) ''tier''"
    and "py_get (properties (store (coverage_pass nm sites) ! i)) ''notes'' = py_get (properties (sites ! i)) ''notes''"
    and "py_get (properties (store (coverage_pass nm sites) ! i)) ''cell_id'' = py_get (properties (sites ! i)) ''cell_id''"
    and "py_get (properties (store (coverage_pass nm sites) ! i)) ''zone_id'' = py_get (properties (sites ! i)) ''zone_id''"
  using coverage_pass_cases [OF assms, of nm]
  by (auto simp add: py_get_def mark_satisfied_def)

lemma group_sites_after_pass:
  "tiera_features (group_sites (store (coverage_pass nm sites))) = tiera_features (group_sites sites)"
  "tierb_required_features (group_sites (store (coverage_pass nm sites)))
     = tierb_required_features (group_sites sites)"
  "tierb_alt_features (group_sites (store (coverage_pass nm sites)))
     = tierb_alt_features (group_sites sites)"
  by (auto simp add: tiera_features_group_sites required_features_group_sites
      alt_features_group_sites coverage_pass_store(1) is_tier_a_def is_tier_b_def is_alt_def
      coverage_pass_keeps intro!: filter_cong)

lemma candidate_after_pass:
  assumes i: "i < length sites"
    and rc: "required_candidate (store (coverage_pass nm sites) ! i)"
  shows "store (coverage_pass nm sites) ! i = sites ! i \<and> required_candidate (sites ! i)
    \<and> covering nm sites (cell_of (sites ! i)) = []"
proof -
  have not_marked: "\<not> required_candidate (mark_satisfied props f)" for props f
    by (simp add: required_candidate_def)
  from coverage_pass_store(2) [OF i, of nm] rc not_marked show ?thesis
    by (auto split: if_splits list.splits)
qed

lemma no_candidates_left:
  assumes a: "a < length sites" "is_tier_a (sites ! a)" "truthy (cell_of (sites ! a))"
    and c: "c \<in> set (covered_cells nm (cell_of (sites ! a)))"
  shows "tierb_candidates_by_cell (group_sites (store (coverage_pass nm sites))) (py_key c) = []"
proof -
  have "\<not> (required_candidate (store (coverage_pass nm sites) ! i)
            \<and> py_key (cell_of (store (coverage_pass nm sites) ! i)) = py_key c)"
    if i: "i < length sites" for i
  proof
    assume h: "required_candidate (store (coverage_pass nm sites) ! i)
            \<and> py_key (cell_of (store (coverage_pass nm sites) ! i)) = py_key c"
    from candidate_after_pass [OF i] h
    have same: "store (coverage_pass nm sites) ! i = sites ! i"
      and none: "covering nm sites (cell_of (sites ! i)) = []" by auto
    from h same c a(3) have "covers nm (sites ! a) (cell_of (sites ! i))"
      by (auto simp add: covers_def)
    with a have "a \<in> set (covering nm sites (cell_of (sites ! i)))"
      by (simp add: covering_def)
    with none show False by simp
  qed
  then show ?thesis
    by (simp add: candidates_group_sites coverage_pass_store(1) filter_empty_conv)
qed

lemma cover_cells_no_candidates:
  "\<forall>c \<in> set cs. by_cell (py_key c) = [] \<Longrightarrow> cover_cells by_cell props cs st = st"
  by (induction cs arbitrary: st) auto

lemma apply_tiera_second_run:
  assumes a: "a < length sites" "is_tier_a (sites ! a)"
    and st: "st = \<lparr>store = store (coverage_pass nm sites), satisfied_required = 0, tiera_used = []\<rparr>"
  shows "apply_tiera nm (group_sites (store (coverage_pass nm sites))) a st = st"
proof -
  have same: "store (coverage_pass nm sites) ! a = sites ! a"
    using coverage_pass_store(2) [OF a(1), of nm] a(2) by (simp add: tier_a_not_candidate)
  show ?thesis
  proof (cases "truthy (cell_of (sites ! a))")
    case False
    then show ?thesis by (simp add: apply_tiera_def Let_def st same cell_of_def)
  next
    case True
    have "cover_cells (tierb_candidates_by_cell (group_sites (store (coverage_pass nm sites))))
            (properties (sites ! a)) (covered_cells nm (cell_of (sites ! a)))
            (store (coverage_pass nm sites), 0, False)
          = (store (coverage_pass nm sites), 0, False)"
      by (rule cover_cells_no_candidates) (simp add: no_candidates_left [OF a True])
    then show ?thesis
      using True by (simp add: apply_tiera_def Let_def st same cell_of_def [symmetric])
  qed
qed

lemma fold_identity:
  "\<forall>a \<in> set as. f a st = st \<Longrightarrow> fold f as st = st"
  by (induction as) auto

lemma coverage_pass_twice:
  "coverage_pass nm (store (coverage_pass nm sites))
     = \<lparr>store = store (coverage_pass nm sites), satisfied_required = 0, tiera_used = []\<rparr>"
proof -
  have "\<forall>a \<in> set (tiera_features (group_sites sites)).
          apply_tiera nm (group_sites (store (coverage_pass nm sites))) a
            \<lparr>store = store (coverage_pass nm sites), satisfied_required = 0, tiera_used = []\<rparr>
          = \<lparr>store = store (coverage_pass nm sites), satisfied_required = 0, tiera_used = []\<rparr>"
    by (auto simp add: tiera_features_group_sites intro!: apply_tiera_second_run)
  then have "\<forall>a \<in> set (tiera_features (group_sites (store (coverage_pass nm sites)))).
          apply_tiera nm (group_sites (store (coverage_pass nm sites))) a
            \<lparr>store = store (coverage_pass nm sites), satisfied_required = 0, tiera_used = []\<rparr>
          = \<lparr>store = store (coverage_pass nm sites), satisfied_required = 0, tiera_used = []\<rparr>"
    by (simp only: group_sites_after_pass(1))
  from fold_identity [of "tiera_features (group_sites (store (coverage_pass nm sites)))"
      "apply_tiera nm (group_sites (store (coverage_pass nm sites)))"
      "\<lparr>store = store (coverage_pass nm sites), satisfied_required = 0, tiera_used = []\<rparr>", OF this]
  show ?thesis
    by (subst coverage_pass_def) (simp add: Let_def)
qed

lemma zone_rollup_cong:
  "tiera_features g = tiera_features g' \<Longrightarrow>
   tierb_required_features g = tierb_required_features g' \<Longrightarrow>
   tierb_alt_features g = tierb_alt_features g' \<Longrightarrow>
   zone_rollup g sites = zone_rollup g' sites"
  by (simp add: zone_rollup_def)

subsection \<open>The small data directory\<close>

lemma ex_build: "build_neighbor_map ex_hex_cells = Inr ex_neighbor_map"
  apply (simp add: build_neighbor_map_def ex_hex_cells_def index_feature_def and_then_def
      py_get_def neighbors_of_def List.union_def List.insert_def ex_neighbor_map_def Let_def)
  apply (rule ext)
  apply (simp add: neighbors_of_def List.union_def List.insert_def)
  done

lemma ex_covering:
  "covering ex_neighbor_map ex_sites (JStr ''H2'') = [0, 1]"
  "covering ex_neighbor_map ex_sites (JStr ''H1'') = [0, 1]"
  "covering ex_neighbor_map ex_sites (JStr ''H9'') = []"
  by (simp_all add: covering_def ex_sites_def ex_neighbor_map_def upt_rec is_tier_a_def
      covers_def covered_cells_def cell_of_def py_get_def)

lemma ex_sites_kinds:
  "length ex_sites = 5"
  "is_tier_a (ex_sites ! 0)" "is_tier_a (ex_sites ! 1)"
  "required_candidate (ex_sites ! 2)" "cell_of (ex_sites ! 2) = JStr ''H2''"
  "is_tier_b (ex_sites ! 3)" "is_alt (ex_sites ! 3)" "status_of (ex_sites ! 3) = JStr ''CANDIDATE''"
  "cell_of (ex_sites ! 3) = JStr ''H1''"
  "required_candidate (ex_sites ! 4)" "cell_of (ex_sites ! 4) = JStr ''H9''"
  by (simp_all add: ex_sites_def is_tier_a_def is_tier_b_def is_alt_def required_candidate_def
      status_of_def cell_of_def py_get_def)

lemma ex_first_tiera:
  "py_get (properties (ex_sites ! 0)) ''site_id'' = JStr ''S_A_0001''"
  "py_get (properties (ex_sites ! 0)) ''corridor_id'' = JStr ''C1''"
  "cell_of (ex_sites ! 0) = JStr ''H1''"
  by (simp_all add: ex_sites_def py_get_def cell_of_def)

lemma ex_covers:
  "covers ex_neighbor_map (ex_sites ! 0) (JStr ''H1'')"
  "covers ex_neighbor_map (ex_sites ! 0) (JStr ''H2'')"
  "covers ex_neighbor_map (ex_sites ! 1) (JStr ''H2'')"
  by (simp_all add: covers_def ex_sites_def ex_neighbor_map_def covered_cells_def cell_of_def
      py_get_def)

lemma ex_main:
  "apply_tiera_coverage_main ex_dir
     = Inr (ex_dir\<lparr>sites_geojson := store (coverage_pass ex_neighbor_map ex_sites),
                   tierb_after_tiera_by_zone :=
                     zone_rollup (group_sites ex_sites) (store (coverage_pass ex_neighbor_map ex_sites))\<rparr>,
            \<lparr>summary_satisfied_required = satisfied_required (coverage_pass ex_neighbor_map ex_sites),
             summary_remaining_required =
               length (filter (\<lambda>i. py_get (properties (store (coverage_pass ex_neighbor_map ex_sites) ! i))
                                     ''status'' \<noteq> JStr ''SATISFIED'')
                         (tierb_required_features (group_sites ex_sites))),
             summary_tierA_used = length (tiera_used (coverage_pass ex_neighbor_map ex_sites))\<rparr>)"
  by (simp add: apply_tiera_coverage_main_def ex_build and_then_def ex_dir_def Let_def)

lemma ex_counter: "satisfied_required (coverage_pass ex_neighbor_map ex_sites) = 1"
  by (simp add: coverage_pass_def group_sites_def group_site_def ex_sites_def no_groups_def
      py_get_def upt_rec apply_tiera_def covered_cells_def mark_satisfied_def Let_def ex_neighbor_map_def)

subsection \<open>The adjacency index\<close>

lemma fold_insert_key:
  "fold (\<lambda>vertex m. m(vertex := List.insert k (m vertex))) vs m v
     = (if v \<in> set vs then List.insert k (m v) else m v)"
  by (induction vs arbitrary: m) auto

lemma set_neighbors_fold:
  "set (fold (\<lambda>vertex neighbors. List.union (m vertex) neighbors) vs acc)
     = set acc \<union> (\<Union>v \<in> set vs. set (m v))"
  by (induction vs arbitrary: acc) auto

lemma set_neighbors_of: "set (neighbors_of m vs) = (\<Union>v \<in> set vs. set (m v))"
  by (simp add: neighbors_of_def set_neighbors_fold)

lemma index_feature_skip:
  "\<not> truthy (cell_of f) \<Longrightarrow> index_feature st f = Inr st"
  by (simp add: index_feature_def cell_of_def split: prod.splits)

lemma index_feature_step:
  assumes "truthy (cell_of f)" and "index_feature (m, cv) f = Inr (m', cv')"
  shows "\<exists>vs. iter_vertices (geometry f) = Inr vs
    \<and> cv' = cv(py_key (cell_of f) \<mapsto> remdups vs)
    \<and> (\<forall>v. m' v = (if v \<in> set vs then List.insert (py_key (cell_of f)) (m v) else m v))"
  using assms
  by (auto simp add: index_feature_def cell_of_def and_then_def Let_def fold_insert_key
      split: sum.splits)

lemma index_features_invariant:
  assumes "index_features (m, cv) fs = Inr (m', cv')"
    and "index_consistent (m, cv)"
    and "distinct (cell_keys fs)"
    and "set (cell_keys fs) \<inter> dom cv = {}"
  shows "index_consistent (m', cv')
    \<and> (\<forall>f \<in> set fs. truthy (cell_of f) \<longrightarrow>
          (\<exists>vs. iter_vertices (geometry f) = Inr vs \<and> cv' (py_key (cell_of f)) = Some (remdups vs)))
    \<and> (\<forall>c. c \<notin> set (cell_keys fs) \<longrightarrow> cv' c = cv c)"
  using assms
proof (induction fs arbitrary: m cv)
  case Nil
  then show ?case by (simp add: cell_keys_def)
next
  case (Cons f fs)
  show ?case
  proof (cases "truthy (cell_of f)")
    case False
    with Cons.prems have run: "index_features (m, cv) fs = Inr (m', cv')"
      and d: "distinct (cell_keys fs)" "set (cell_keys fs) \<inter> dom cv = {}"
      and k: "cell_keys (f # fs) = cell_keys fs"
      by (simp_all add: index_feature_skip and_then_def cell_keys_def)
    from Cons.IH [OF run Cons.prems(2) d] False k show ?thesis by simp
  next
    case True
    from Cons.prems(1) obtain m1 cv1 where step: "index_feature (m, cv) f = Inr (m1, cv1)"
      and run: "index_features (m1, cv1) fs = Inr (m', cv')"
      by (auto simp add: and_then_def split: sum.splits)
    from index_feature_step [OF True step] obtain vs where
      vs: "iter_vertices (geometry f) = Inr vs"
      and cv1: "cv1 = cv(py_key (cell_of f) \<mapsto> remdups vs)"
      and m1: "\<And>v. m1 v = (if v \<in> set vs then List.insert (py_key (cell_of f)) (m v) else m v)"
      by blast
    from True have keys: "cell_keys (f # fs) = py_key (cell_of f) # cell_keys fs"
      by (simp add: cell_keys_def)
    with Cons.prems have fresh: "py_key (cell_of f) \<notin> dom cv"
      and notin: "py_key (cell_of f) \<notin> set (cell_keys fs)"
      and d: "distinct (cell_keys fs)"
      and disj: "set (cell_keys fs) \<inter> dom cv1 = {}"
      by (auto simp add: cv1)
    have cons1: "index_consistent (m1, cv1)"
      using Cons.prems(2) fresh
      by (auto simp add: index_consistent_def m1 cv1 dom_def)
    from Cons.IH [OF run cons1 d disj]
    have IH: "index_consistent (m', cv')"
      "\<forall>f \<in> set fs. truthy (cell_of f) \<longrightarrow>
          (\<exists>vs. iter_vertices (geometry f) = Inr vs \<and> cv' (py_key (cell_of f)) = Some (remdups vs))"
      "\<forall>c. c \<notin> set (cell_keys fs) \<longrightarrow> cv' c = cv1 c"
      by auto
    from IH(3) notin have "cv' (py_key (cell_of f)) = Some (remdups vs)"
      by (simp add: cv1)
    with IH vs keys show ?thesis
      by (auto simp add: cv1)
  qed
qed

text \<open>
  Claim C6. For hex cells with pairwise different cell ids (the data model's invariant),
  the neighbor map that \<open>build_neighbor_map\<close> returns is symmetric: a cell \<open>B\<close> in the
  neighbor set of \<open>A\<close> has a neighbor set, and \<open>A\<close> is in it. It is reflexive on cells with
  a vertex: such a cell is in its own neighbor set.
\<close>

theorem neighbor_map_symmetric_reflexive:
  assumes build: "build_neighbor_map hex_features = Inr neighbor_map"
    and unique: "distinct (cell_keys hex_features)"
  shows "(\<forall>A B nA. neighbor_map A = Some nA \<and> B \<in> set nA \<longrightarrow>
            (\<exists>nB. neighbor_map B = Some nB \<and> A \<in> set nB))
      \<and> (\<forall>f vs. f \<in> set hex_features \<and> truthy (cell_of f)
              \<and> iter_vertices (geometry f) = Inr vs \<and> vs \<noteq> [] \<longrightarrow>
            (\<exists>n. neighbor_map (py_key (cell_of f)) = Some n \<and> py_key (cell_of f) \<in> set n))"
proof -
  from build obtain m cv where run: "index_features (\<lambda>_. [], Map.empty) hex_features = Inr (m, cv)"
    and nm: "neighbor_map = (\<lambda>cell_id. map_option (neighbors_of m) (cv cell_id))"
    by (auto simp add: build_neighbor_map_def and_then_def split: sum.splits)
  have start: "index_consistent (\<lambda>_. [], Map.empty)"
    by (simp add: index_consistent_def)
  from index_features_invariant [OF run start unique]
  have cons: "\<And>v c. c \<in> set (m v) \<longleftrightarrow> (\<exists>vs. cv c = Some vs \<and> v \<in> set vs)"
    and own: "\<And>f. f \<in> set hex_features \<Longrightarrow> truthy (cell_of f) \<Longrightarrow>
          (\<exists>vs. iter_vertices (geometry f) = Inr vs \<and> cv (py_key (cell_of f)) = Some (remdups vs))"
    by (auto simp add: index_consistent_def)
  have sym: "\<exists>nB. neighbor_map B = Some nB \<and> A \<in> set nB"
    if "neighbor_map A = Some nA \<and> B \<in> set nA" for A B nA
  proof -
    from that obtain vsA where A: "cv A = Some vsA" and B: "B \<in> set (neighbors_of m vsA)"
      by (auto simp add: nm)
    from B obtain v where v: "v \<in> set vsA" "B \<in> set (m v)"
      by (auto simp add: set_neighbors_of)
    from v(2) obtain vsB where vsB: "cv B = Some vsB" "v \<in> set vsB"
      using cons by blast
    from A v(1) have "A \<in> set (m v)" using cons by blast
    with vsB have "A \<in> set (neighbors_of m vsB)"
      by (auto simp add: set_neighbors_of)
    with vsB show ?thesis by (simp add: nm)
  qed
  have refl: "\<exists>n. neighbor_map (py_key (cell_of f)) = Some n \<and> py_key (cell_of f) \<in> set n"
    if "f \<in> set hex_features \<and> truthy (cell_of f) \<and> iter_vertices (geometry f) = Inr vs \<and> vs \<noteq> []"
    for f vs
  proof -
    from that own [of f] have cvf: "cv (py_key (cell_of f)) = Some (remdups vs)" by auto
    from that have "hd vs \<in> set (remdups vs)" by simp
    then obtain v where v: "v \<in> set (remdups vs)" ..
    with cvf have "py_key (cell_of f) \<in> set (m v)" using cons by blast
    with v have "py_key (cell_of f) \<in> set (neighbors_of m (remdups vs))"
      by (auto simp add: set_neighbors_of)
    with cvf show ?thesis by (simp add: nm)
  qed
  from sym refl show ?thesis by blast
qed

theorem neighbor_map_symmetric_reflexive_witness:
  "build_neighbor_map ex_hex_cells = Inr ex_neighbor_map
   \<and> distinct (cell_keys ex_hex_cells)
   \<and> ex_neighbor_map (JStr ''H1'') = Some [JStr ''H2'', JStr ''H1'']
   \<and> (\<exists>nB. ex_neighbor_map (JStr ''H2'') = Some nB \<and> JStr ''H1'' \<in> set nB)
   \<and> (\<exists>n. ex_neighbor_map (py_key (cell_of (ex_hex_cells ! 2))) = Some n
          \<and> py_key (cell_of (ex_hex_cells ! 2)) \<in> set n)"
proof -
  have unique: "distinct (cell_keys ex_hex_cells)"
    by (simp add: cell_keys_def ex_hex_cells_def cell_of_def py_get_def)
  note sr = neighbor_map_symmetric_reflexive [OF ex_build unique]
  have h1: "ex_neighbor_map (JStr ''H1'') = Some [JStr ''H2'', JStr ''H1'']"
    by (simp add: ex_neighbor_map_def)
  then have "ex_neighbor_map (JStr ''H1'') = Some [JStr ''H2'', JStr ''H1'']
      \<and> JStr ''H2'' \<in> set [JStr ''H2'', JStr ''H1'']" by simp
  from sr [THEN conjunct1, THEN spec, THEN spec, THEN spec, THEN mp, OF this]
  have sym: "\<exists>nB. ex_neighbor_map (JStr ''H2'') = Some nB \<and> JStr ''H1'' \<in> set nB" .
  have "ex_hex_cells ! 2 \<in> set ex_hex_cells \<and> truthy (cell_of (ex_hex_cells ! 2))
      \<and> iter_vertices (geometry (ex_hex_cells ! 2)) = Inr [(5, 5), (6, 5), (6, 6), (5, 5)]
      \<and> [(5, 5), (6, 5), (6, 6), (5, 5)] \<noteq> ([] :: vertex list)"
    by (simp add: ex_hex_cells_def cell_of_def py_get_def)
  from sr [THEN conjunct2, THEN spec, THEN spec, THEN mp, OF this]
  have refl: "\<exists>n. ex_neighbor_map (py_key (cell_of (ex_hex_cells ! 2))) = Some n
          \<and> py_key (cell_of (ex_hex_cells ! 2)) \<in> set n" .
  from ex_build unique h1 sym refl show ?thesis by (intro conjI)
qed

subsection \<open>First writer wins\<close>

text \<open>
  Claim C1, as amended. Let \<open>j\<close> be a required (non-ALT) Tier-B site that is a candidate
  with a home cell, and let some Tier-A site \<open>a\<close> cover that cell. After the pass the status
  of \<open>j\<close> is SATISFIED, and \<open>satisfied_by\<close> and \<open>satisfied_corridor_id\<close> are the site id and
  the corridor id of the first Tier-A site in input order that covers the cell; nothing else
  of the feature changes.
\<close>

theorem required_candidate_satisfied_by_first:
  assumes j: "j < length sites" and rc: "required_candidate (sites ! j)"
    and a: "a < length sites" "is_tier_a (sites ! a)" "covers nm (sites ! a) (cell_of (sites ! j))"
  shows "status_of (store (coverage_pass nm sites) ! j) = JStr ''SATISFIED''
    \<and> (\<exists>a0 \<le> a. is_tier_a (sites ! a0) \<and> covers nm (sites ! a0) (cell_of (sites ! j))
          \<and> (\<forall>a' < a0. \<not> (is_tier_a (sites ! a') \<and> covers nm (sites ! a') (cell_of (sites ! j))))
          \<and> py_get (properties (store (coverage_pass nm sites) ! j)) ''satisfied_by''
              = py_get (properties (sites ! a0)) ''site_id''
          \<and> py_get (properties (store (coverage_pass nm sites) ! j)) ''satisfied_corridor_id''
              = py_get (properties (sites ! a0)) ''corridor_id''
          \<and> store (coverage_pass nm sites) ! j = mark_satisfied (properties (sites ! a0)) (sites ! j))"
proof -
  let ?P = "\<lambda>a. is_tier_a (sites ! a) \<and> covers nm (sites ! a) (cell_of (sites ! j))"
  from a have "a \<in> set (covering nm sites (cell_of (sites ! j)))"
    by (simp add: covering_def)
  then obtain a0 rest where L: "covering nm sites (cell_of (sites ! j)) = a0 # rest"
    by (cases "covering nm sites (cell_of (sites ! j))") auto
  then have "filter ?P [0..<length sites] = a0 # rest"
    by (simp add: covering_def)
  from first_of_filter_upt [OF this]
  have a0: "?P a0" "a0 < length sites" and least: "\<forall>a' < a0. \<not> ?P a'" by auto
  have le: "a0 \<le> a"
  proof (rule ccontr)
    assume "\<not> a0 \<le> a"
    then have "a < a0" by simp
    with least a show False by blast
  qed
  have out: "store (coverage_pass nm sites) ! j = mark_satisfied (properties (sites ! a0)) (sites ! j)"
    using coverage_pass_store(2) [OF j, of nm] rc L by simp
  have by_id: "py_get (properties (mark_satisfied (properties (sites ! a0)) (sites ! j))) ''satisfied_by''
      = py_get (properties (sites ! a0)) ''site_id''"
    by (simp add: mark_satisfied_def py_get_def)
  have corr: "py_get (properties (mark_satisfied (properties (sites ! a0)) (sites ! j))) ''satisfied_corridor_id''
      = py_get (properties (sites ! a0)) ''corridor_id''"
    by (simp add: mark_satisfied_def py_get_def)
  from out by_id corr a0 least le show ?thesis
    by (intro conjI exI [of _ a0]) simp_all
qed

theorem required_candidate_satisfied_by_first_witness:
  "status_of (store (coverage_pass ex_neighbor_map ex_sites) ! 2) = JStr ''SATISFIED''
   \<and> py_get (properties (store (coverage_pass ex_neighbor_map ex_sites) ! 2)) ''satisfied_by''
       = JStr ''S_A_0001''
   \<and> py_get (properties (store (coverage_pass ex_neighbor_map ex_sites) ! 2)) ''satisfied_corridor_id''
       = JStr ''C1''
   \<and> is_tier_a (ex_sites ! 1) \<and> covers ex_neighbor_map (ex_sites ! 1) (cell_of (ex_sites ! 2))"
proof -
  have j: "(2::nat) < length ex_sites" and a: "(1::nat) < length ex_sites"
    by (simp_all add: ex_sites_kinds)
  have c: "covers ex_neighbor_map (ex_sites ! 1) (cell_of (ex_sites ! 2))"
    unfolding ex_sites_kinds(5) by (rule ex_covers(3))
  from required_candidate_satisfied_by_first [OF j ex_sites_kinds(4) a ex_sites_kinds(3) c]
  obtain a0 where st: "status_of (store (coverage_pass ex_neighbor_map ex_sites) ! 2) = JStr ''SATISFIED''"
    and a0: "a0 \<le> 1"
      "\<forall>a' < a0. \<not> (is_tier_a (ex_sites ! a') \<and> covers ex_neighbor_map (ex_sites ! a') (cell_of (ex_sites ! 2)))"
      "py_get (properties (store (coverage_pass ex_neighbor_map ex_sites) ! 2)) ''satisfied_by''
         = py_get (properties (ex_sites ! a0)) ''site_id''"
      "py_get (properties (store (coverage_pass ex_neighbor_map ex_sites) ! 2)) ''satisfied_corridor_id''
         = py_get (properties (ex_sites ! a0)) ''corridor_id''"
    by blast
  have "\<not> 0 < a0"
    using a0(2) ex_sites_kinds(2) ex_covers(2) by (auto simp add: ex_sites_kinds)
  then have "a0 = 0" by simp
  with st a0(3,4) c ex_sites_kinds(3) show ?thesis
    by (simp only: ex_first_tiera)
qed

text \<open>
  Claim C1 as stated fails: the alternate Tier-B site of the small data directory is a
  candidate in cell H1, the first Tier-A site is in H1, and the pass leaves the alternate
  a candidate.
\<close>

theorem alt_candidate_not_satisfied:
  "build_neighbor_map ex_hex_cells = Inr ex_neighbor_map
   \<and> is_tier_a (ex_sites ! 0) \<and> cell_of (ex_sites ! 0) = JStr ''H1''
   \<and> covers ex_neighbor_map (ex_sites ! 0) (cell_of (ex_sites ! 3))
   \<and> is_tier_b (ex_sites ! 3) \<and> status_of (ex_sites ! 3) = JStr ''CANDIDATE''
   \<and> cell_of (ex_sites ! 3) = JStr ''H1''
   \<and> status_of (store (coverage_pass ex_neighbor_map ex_sites) ! 3) = JStr ''CANDIDATE''
   \<and> properties (store (coverage_pass ex_neighbor_map ex_sites) ! 3) ''satisfied_by'' = None"
proof -
  have "\<not> required_candidate (ex_sites ! 3)"
    by (simp add: required_candidate_def ex_sites_kinds)
  then have "store (coverage_pass ex_neighbor_map ex_sites) ! 3 = ex_sites ! 3"
    using coverage_pass_store(2) [of 3 ex_sites ex_neighbor_map] by (simp add: ex_sites_kinds)
  moreover have "properties (ex_sites ! 3) ''satisfied_by'' = None"
    by (simp add: ex_sites_def)
  ultimately show ?thesis
    by (simp add: ex_build ex_sites_kinds ex_covers ex_first_tiera)
qed

subsection \<open>Frame\<close>

text \<open>
  Claim C7. The pass keeps the number and the order of the site features; of a site feature
  it changes nothing but the properties \<open>status\<close>, \<open>satisfied_by\<close> and
  \<open>satisfied_corridor_id\<close>: the geometry and every other property are unchanged. A Tier-A
  feature is unchanged. A status that changes was CANDIDATE and becomes SATISFIED. A run of
  \<open>main\<close> that completes leaves the hex cells as they were and writes the sites of the
  pass.
\<close>

theorem coverage_changes_only_satisfaction_fields:
  "length (store (coverage_pass nm sites)) = length sites
   \<and> (\<forall>i < length sites.
         geometry (store (coverage_pass nm sites) ! i) = geometry (sites ! i)
       \<and> (\<forall>k. k \<notin> {''status'', ''satisfied_by'', ''satisfied_corridor_id''} \<longrightarrow>
               properties (store (coverage_pass nm sites) ! i) k = properties (sites ! i) k)
       \<and> (is_tier_a (sites ! i) \<longrightarrow> store (coverage_pass nm sites) ! i = sites ! i)
       \<and> (status_of (store (coverage_pass nm sites) ! i) \<noteq> status_of (sites ! i) \<longrightarrow>
             status_of (sites ! i) = JStr ''CANDIDATE''
           \<and> status_of (store (coverage_pass nm sites) ! i) = JStr ''SATISFIED'')
       \<and> (status_of (sites ! i) = JStr ''SATISFIED'' \<longrightarrow>
             store (coverage_pass nm sites) ! i = sites ! i))
   \<and> (\<forall>d d' s. apply_tiera_coverage_main d = Inr (d', s) \<longrightarrow>
         hex_cells_geojson d' = hex_cells_geojson d
       \<and> (\<exists>neighbor_map. build_neighbor_map (hex_cells_geojson d) = Inr neighbor_map
             \<and> sites_geojson d' = store (coverage_pass neighbor_map (sites_geojson d))))"
proof (intro conjI allI impI)
  show "length (store (coverage_pass nm sites)) = length sites"
    by (rule coverage_pass_store(1))
next
  fix i assume "i < length sites"
  from coverage_pass_cases [OF this, of nm]
  show "geometry (store (coverage_pass nm sites) ! i) = geometry (sites ! i)"
    by (auto simp add: mark_satisfied_frame)
next
  fix i k assume "i < length sites" "k \<notin> {''status'', ''satisfied_by'', ''satisfied_corridor_id''}"
  with coverage_pass_cases [of i sites nm]
  show "properties (store (coverage_pass nm sites) ! i) k = properties (sites ! i) k"
    by (auto simp add: mark_satisfied_frame)
next
  fix i assume "i < length sites" "is_tier_a (sites ! i)"
  with coverage_pass_store(2) [of i sites nm]
  show "store (coverage_pass nm sites) ! i = sites ! i"
    by (simp add: tier_a_not_candidate)
next
  fix i assume "i < length sites"
    and "status_of (store (coverage_pass nm sites) ! i) \<noteq> status_of (sites ! i)"
  with coverage_pass_cases [of i sites nm]
  show "status_of (sites ! i) = JStr ''CANDIDATE''"
    by (auto simp add: required_candidate_def)
next
  fix i assume "i < length sites"
    and "status_of (store (coverage_pass nm sites) ! i) \<noteq> status_of (sites ! i)"
  with coverage_pass_cases [of i sites nm]
  show "status_of (store (coverage_pass nm sites) ! i) = JStr ''SATISFIED''"
    by auto
next
  fix i assume "i < length sites" "status_of (sites ! i) = JStr ''SATISFIED''"
  with coverage_pass_cases [of i sites nm]
  show "store (coverage_pass nm sites) ! i = sites ! i"
    by (auto simp add: required_candidate_def)
next
  fix d d' s assume "apply_tiera_coverage_main d = Inr (d', s)"
  then show "hex_cells_geojson d' = hex_cells_geojson d"
    by (auto simp add: apply_tiera_coverage_main_def and_then_def Let_def split: sum.splits)
next
  fix d d' s assume "apply_tiera_coverage_main d = Inr (d', s)"
  then show "\<exists>neighbor_map. build_neighbor_map (hex_cells_geojson d) = Inr neighbor_map
             \<and> sites_geojson d' = store (coverage_pass neighbor_map (sites_geojson d))"
    by (auto simp add: apply_tiera_coverage_main_def and_then_def Let_def split: sum.splits)
qed

theorem coverage_changes_only_satisfaction_fields_witness:
  "(\<exists>d' s. apply_tiera_coverage_main ex_dir = Inr (d', s)
      \<and> hex_cells_geojson d' = ex_hex_cells
      \<and> sites_geojson d' = store (coverage_pass ex_neighbor_map ex_sites))
   \<and> length (store (coverage_pass ex_neighbor_map ex_sites)) = 5
   \<and> geometry (store (coverage_pass ex_neighbor_map ex_sites) ! 2) = Point (5/3, 4/3)
   \<and> properties (store (coverage_pass ex_neighbor_map ex_sites) ! 2) ''site_id'' = Some (JStr ''S_B_0001'')
   \<and> store (coverage_pass ex_neighbor_map ex_sites) ! 0 = ex_sites ! 0
   \<and> status_of (ex_sites ! 2) = JStr ''CANDIDATE''
   \<and> status_of (store (coverage_pass ex_neighbor_map ex_sites) ! 2) = JStr ''SATISFIED''"
proof -
  note frame = coverage_changes_only_satisfaction_fields [of ex_neighbor_map ex_sites]
  have i2: "(2::nat) < length ex_sites" and i0: "(0::nat) < length ex_sites"
    by (simp_all add: ex_sites_kinds)
  note at2 = frame [THEN conjunct2, THEN conjunct1, THEN spec, of 2, THEN mp, OF i2]
  note at0 = frame [THEN conjunct2, THEN conjunct1, THEN spec, of 0, THEN mp, OF i0]
  have len: "length (store (coverage_pass ex_neighbor_map ex_sites)) = 5"
    using frame [THEN conjunct1] by (simp add: ex_sites_kinds)
  have geo: "geometry (store (coverage_pass ex_neighbor_map ex_sites) ! 2) = Point (5/3, 4/3)"
    using at2 [THEN conjunct1] by (simp add: ex_sites_def)
  have sid: "properties (store (coverage_pass ex_neighbor_map ex_sites) ! 2) ''site_id''
      = Some (JStr ''S_B_0001'')"
    using at2 [THEN conjunct2, THEN conjunct1, THEN spec, of "''site_id''"]
    by (simp add: ex_sites_def)
  have a0: "store (coverage_pass ex_neighbor_map ex_sites) ! 0 = ex_sites ! 0"
    using at0 [THEN conjunct2, THEN conjunct2, THEN conjunct1] ex_sites_kinds(2) by (rule mp)
  have before: "status_of (ex_sites ! 2) = JStr ''CANDIDATE''"
    using ex_sites_kinds(4) by (simp add: required_candidate_def)
  have after: "status_of (store (coverage_pass ex_neighbor_map ex_sites) ! 2) = JStr ''SATISFIED''"
    using coverage_pass_store(2) [OF i2, of ex_neighbor_map]
    by (simp add: ex_sites_kinds ex_covering)
  have "apply_tiera_coverage_main ex_dir
      = Inr (ex_dir\<lparr>sites_geojson := store (coverage_pass ex_neighbor_map ex_sites),
                   tierb_after_tiera_by_zone :=
                     zone_rollup (group_sites ex_sites) (store (coverage_pass ex_neighbor_map ex_sites))\<rparr>,
            \<lparr>summary_satisfied_required = satisfied_required (coverage_pass ex_neighbor_map ex_sites),
             summary_remaining_required =
               length (filter (\<lambda>i. py_get (properties (store (coverage_pass ex_neighbor_map ex_sites) ! i))
                                     ''status'' \<noteq> JStr ''SATISFIED'')
                         (tierb_required_features (group_sites ex_sites))),
             summary_tierA_used = length (tiera_used (coverage_pass ex_neighbor_map ex_sites))\<rparr>)
     \<and> hex_cells_geojson (ex_dir\<lparr>sites_geojson := store (coverage_pass ex_neighbor_map ex_sites),
                   tierb_after_tiera_by_zone :=
                     zone_rollup (group_sites ex_sites) (store (coverage_pass ex_neighbor_map ex_sites))\<rparr>)
         = ex_hex_cells
     \<and> sites_geojson (ex_dir\<lparr>sites_geojson := store (coverage_pass ex_neighbor_map ex_sites),
                   tierb_after_tiera_by_zone :=
                     zone_rollup (group_sites ex_sites) (store (coverage_pass ex_neighbor_map ex_sites))\<rparr>)
         = store (coverage_pass ex_neighbor_map ex_sites)"
    by (simp add: ex_main) (simp add: ex_dir_def)
  then have main: "\<exists>d' s. apply_tiera_coverage_main ex_dir = Inr (d', s)
      \<and> hex_cells_geojson d' = ex_hex_cells
      \<and> sites_geojson d' = store (coverage_pass ex_neighbor_map ex_sites)"
    by (intro exI)
  from main len geo sid a0 before after show ?thesis
    by (intro conjI)
qed


subsection \<open>Idempotence\<close>

text \<open>
  Claim C5. The pass applied to its own output changes no feature, satisfies no candidate
  and uses no Tier-A site; the groups of features, and with them the rows of the rollup,
  are those of the first run. A completed run of \<open>main\<close> followed by a second run on the
  data directory it left completes and leaves the directory (sites, hex cells and rollup
  table) exactly as the first run did, with zero newly satisfied sites in its summary.
\<close>

theorem coverage_second_run_changes_nothing:
  "coverage_pass nm (store (coverage_pass nm sites))
     = \<lparr>store = store (coverage_pass nm sites), satisfied_required = 0, tiera_used = []\<rparr>
   \<and> zone_rollup (group_sites (store (coverage_pass nm sites)))
        (store (coverage_pass nm (store (coverage_pass nm sites))))
     = zone_rollup (group_sites sites) (store (coverage_pass nm sites))
   \<and> (\<forall>d d1 s1. apply_tiera_coverage_main d = Inr (d1, s1) \<longrightarrow>
        (\<exists>s2. apply_tiera_coverage_main d1 = Inr (d1, s2)
           \<and> summary_satisfied_required s2 = 0
           \<and> summary_tierA_used s2 = 0
           \<and> summary_remaining_required s2 = summary_remaining_required s1))"
proof (intro conjI allI impI)
  show twice: "coverage_pass nm (store (coverage_pass nm sites))
     = \<lparr>store = store (coverage_pass nm sites), satisfied_required = 0, tiera_used = []\<rparr>"
    by (rule coverage_pass_twice)
  show "zone_rollup (group_sites (store (coverage_pass nm sites)))
        (store (coverage_pass nm (store (coverage_pass nm sites))))
     = zone_rollup (group_sites sites) (store (coverage_pass nm sites))"
    by (simp add: coverage_pass_twice zone_rollup_cong [OF group_sites_after_pass])
next
  fix d d1 s1 assume run: "apply_tiera_coverage_main d = Inr (d1, s1)"
  then obtain neighbor_map where nm: "build_neighbor_map (hex_cells_geojson d) = Inr neighbor_map"
    by (auto simp add: apply_tiera_coverage_main_def and_then_def split: sum.splits)
  let ?once = "store (coverage_pass neighbor_map (sites_geojson d))"
  from run nm have d1: "d1 = d\<lparr>sites_geojson := ?once,
      tierb_after_tiera_by_zone := zone_rollup (group_sites (sites_geojson d)) ?once\<rparr>"
    and s1: "summary_remaining_required s1
      = length (filter (\<lambda>i. py_get (properties (?once ! i)) ''status'' \<noteq> JStr ''SATISFIED'')
                       (tierb_required_features (group_sites (sites_geojson d))))"
    by (auto simp add: apply_tiera_coverage_main_def and_then_def Let_def)
  have roll: "zone_rollup (group_sites ?once) ?once = zone_rollup (group_sites (sites_geojson d)) ?once"
    by (rule zone_rollup_cong [OF group_sites_after_pass])
  show "\<exists>s2. apply_tiera_coverage_main d1 = Inr (d1, s2)
           \<and> summary_satisfied_required s2 = 0
           \<and> summary_tierA_used s2 = 0
           \<and> summary_remaining_required s2 = summary_remaining_required s1"
    by (simp add: apply_tiera_coverage_main_def and_then_def Let_def d1 nm coverage_pass_twice
        roll s1 group_sites_after_pass)
qed

theorem coverage_second_run_changes_nothing_witness:
  "\<exists>d1 s1 s2. apply_tiera_coverage_main ex_dir = Inr (d1, s1)
      \<and> apply_tiera_coverage_main d1 = Inr (d1, s2)
      \<and> summary_satisfied_required s1 = 1
      \<and> summary_satisfied_required s2 = 0
      \<and> summary_remaining_required s2 = summary_remaining_required s1"
proof -
  obtain d1 s1 where run: "apply_tiera_coverage_main ex_dir = Inr (d1, s1)"
    and one: "summary_satisfied_required s1 = 1"
    by (simp add: ex_main ex_counter)
  from coverage_second_run_changes_nothing [of ex_neighbor_map ex_sites] run
  obtain s2 where "apply_tiera_coverage_main d1 = Inr (d1, s2)" "summary_satisfied_required s2 = 0"
    "summary_remaining_required s2 = summary_remaining_required s1"
    by blast
  with run one show ?thesis by blast
qed

section \<open>Properties of the corridor sampler\<close>

lemma segment_len_nonneg [simp]: "0 \<le> segment_len_mi a b"
  by (simp add: segment_len_mi_def Let_def split: prod.splits)

lemma fold_segments_from:
  "fold (\<lambda>(a, b) total. total + segment_len_mi a b) (zip (a # cs) cs) t = t + arc_length a cs"
  by (induction cs arbitrary: a t) auto

lemma line_length_mi_arc: "line_length_mi (a # cs) = arc_length a cs"
  by (simp add: line_length_mi_def fold_segments_from)

lemma line_length_mi_empty [simp]: "line_length_mi [] = 0"
  by (simp add: line_length_mi_def)

lemma arc_length_nonneg: "0 \<le> arc_length a cs"
  by (induction cs arbitrary: a) (auto intro: add_nonneg_nonneg)

lemma walk_segments_arc:
  "(case walk_segments (zip (a # cs) cs) w d of Some p \<Rightarrow> p | None \<Rightarrow> last (a # cs))
     = arc_point a cs (d - w)"
proof (induction cs arbitrary: a w)
  case Nil
  then show ?case by simp
next
  case (Cons b cs)
  have "(w + segment_len_mi a b \<ge> d) = (d - w \<le> segment_len_mi a b)" by auto
  with Cons [of b "w + segment_len_mi a b"] show ?case
    by (auto simp add: Let_def algebra_simps split: option.splits if_splits)
qed

lemma point_at_distance_arc:
  "point_at_distance (a # cs) d = Inr (arc_point a cs d)"
  using walk_segments_arc [of a cs 0 d]
  by (auto simp add: point_at_distance_def split: option.splits if_splits)

lemma point_at_distance_empty: "point_at_distance [] d = Inl IndexError"
  by (simp add: point_at_distance_def)

lemma collect_total:
  "(\<And>x. x \<in> set xs \<Longrightarrow> f x = Inr (g x)) \<Longrightarrow> collect f xs = Inr (map g xs)"
  by (induction xs) (auto simp add: and_then_def)

lemma arc_point_zero: "arc_point a cs 0 = a"
  by (cases cs) (auto simp add: interpolate_on_segment_def)

lemma sample_fractions:
  assumes "1 < n" and "0 < arc_length a cs"
  shows "sample_points_along_line (a # cs) n
    = Inr (map (\<lambda>i. arc_point a cs (arc_length a cs * (of_int i / of_int (n + 1)))) [1..n])"
proof -
  have "collect (point_at_distance (a # cs))
          (map (\<lambda>i. arc_length a cs * (of_int i / of_int (n + 1))) [1..n])
      = Inr (map (arc_point a cs) (map (\<lambda>i. arc_length a cs * (of_int i / of_int (n + 1))) [1..n]))"
    by (rule collect_total) (simp add: point_at_distance_arc)
  with assms show ?thesis
    by (simp add: sample_points_along_line_def line_length_mi_arc Let_def comp_def)
qed

lemma sample_degenerate:
  assumes "1 \<le> n" and "arc_length a cs = 0"
  shows "sample_points_along_line (a # cs) n = Inr (replicate (nat n) a)"
proof (cases "n = 1")
  case True
  with assms show ?thesis
    by (simp add: sample_points_along_line_def line_length_mi_arc point_at_distance_arc
        and_then_def arc_point_zero)
next
  case False
  with assms show ?thesis
    by (simp add: sample_points_along_line_def line_length_mi_arc Let_def)
qed

lemma sample_single:
  "sample_points_along_line (a # cs) 1 = Inr [arc_point a cs (arc_length a cs / 2)]"
  by (simp add: sample_points_along_line_def line_length_mi_arc point_at_distance_arc and_then_def)

lemma fraction_interior:
  assumes "i \<in> set [1..n]"
  shows "0 < (of_int i :: real) / of_int (n + 1) \<and> (of_int i :: real) / of_int (n + 1) < 1"
proof -
  from assms have "1 \<le> i" "i \<le> n" by auto
  then have "0 < (of_int i :: real)" "(of_int i :: real) < of_int (n + 1)" "0 < (of_int (n + 1) :: real)"
    by simp_all
  then show ?thesis by simp
qed

lemma sample_straight:
  assumes "1 \<le> n" and "0 < segment_len_mi a b"
  shows "sample_points_along_line [a, b] n
    = Inr (map (\<lambda>i. interpolate_on_segment a b (of_int i / of_int (n + 1))) [1..n])"
proof -
  have pt: "arc_point a [b] (segment_len_mi a b * (of_int i / of_int (n + 1)))
      = interpolate_on_segment a b (of_int i / of_int (n + 1))" if "i \<in> set [1..n]" for i
  proof -
    from fraction_interior [OF that] assms(2)
    have "segment_len_mi a b * (of_int i / of_int (n + 1)) \<le> segment_len_mi a b * 1"
      by (intro mult_left_mono) simp_all
    with assms(2) show ?thesis by simp
  qed
  show ?thesis
  proof (cases "n = 1")
    case True
    have "(1::int) \<in> set [1..1]" by simp
    from pt [unfolded True, OF this] show ?thesis
      by (simp add: True sample_single upto_rec1)
  next
    case False
    with assms have "1 < n" by simp
    from sample_fractions [OF this, of a "[b]"] assms(2) pt show ?thesis
      by simp
  qed
qed

lemma meridian_segment: "segment_len_mi (0, 0) (0, y) = \<bar>y\<bar> * 69"
proof -
  have "(4761::real) * (y * y) = (y * 69) * (y * 69)" by simp
  then have "sqrt (4761 * (y * y)) = \<bar>y * 69\<bar>" by (simp only: real_sqrt_abs2)
  then show ?thesis
    by (simp add: segment_len_mi_def deg_to_miles_lon_def deg_to_miles_lat_def abs_mult)
qed

text \<open>
  Claim C2. A count \<open>n \<le> 0\<close> yields no points. On a polyline with first vertex \<open>a\<close>:
  \<open>n = 1\<close> yields the point at half the total arc length; \<open>n > 1\<close> on a polyline of
  positive length yields the \<open>n\<close> points at the arc lengths \<open>i / (n + 1)\<close> of the total,
  \<open>i = 1, ..., n\<close>, fractions that lie strictly between 0 and 1; a polyline of zero length
  yields \<open>a\<close> repeated \<open>n\<close> times. The total is the sum of the segment lengths. On a straight
  line from \<open>a\<close> to \<open>b\<close> the points are at the fractions \<open>i / (n + 1)\<close> of the segment, and on
  the straight 10-mile line \<open>n = 1\<close> gives the point 5 miles from the start and \<open>n = 3\<close> the
  points 2.5, 5 and 7.5 miles from it.
\<close>

theorem sample_points_at_equal_fractions:
  "(n \<le> 0 \<longrightarrow> sample_points_along_line coords n = Inr [])
   \<and> sample_points_along_line (a # cs) 1 = Inr [arc_point a cs (arc_length a cs / 2)]
   \<and> (1 < n \<and> 0 < arc_length a cs \<longrightarrow>
        sample_points_along_line (a # cs) n
          = Inr (map (\<lambda>i. arc_point a cs (arc_length a cs * (of_int i / of_int (n + 1)))) [1..n])
        \<and> length [1..n] = nat n
        \<and> (\<forall>i \<in> set [1..n]. 0 < (of_int i :: real) / of_int (n + 1)
                              \<and> (of_int i :: real) / of_int (n + 1) < 1))
   \<and> (1 \<le> n \<and> arc_length a cs = 0 \<longrightarrow>
        sample_points_along_line (a # cs) n = Inr (replicate (nat n) a))
   \<and> line_length_mi (a # cs) = arc_length a cs
   \<and> (1 \<le> n \<and> 0 < segment_len_mi a b \<longrightarrow>
        sample_points_along_line [a, b] n
          = Inr (map (\<lambda>i. interpolate_on_segment a b (of_int i / of_int (n + 1))) [1..n]))
   \<and> line_length_mi ten_mile_line = 10
   \<and> sample_points_along_line ten_mile_line 1 = Inr [(0, 5 / 69)]
   \<and> segment_len_mi (0, 0) (0, 5 / 69) = 5
   \<and> sample_points_along_line ten_mile_line 3 = Inr [(0, (5 / 2) / 69), (0, 5 / 69), (0, (15 / 2) / 69)]
   \<and> segment_len_mi (0, 0) (0, (5 / 2) / 69) = 5 / 2
   \<and> segment_len_mi (0, 0) (0, (15 / 2) / 69) = 15 / 2"
proof -
  have none: "n \<le> 0 \<longrightarrow> sample_points_along_line coords n = Inr []"
    by (simp add: sample_points_along_line_def)
  have many: "1 < n \<and> 0 < arc_length a cs \<longrightarrow>
        sample_points_along_line (a # cs) n
          = Inr (map (\<lambda>i. arc_point a cs (arc_length a cs * (of_int i / of_int (n + 1)))) [1..n])
        \<and> length [1..n] = nat n
        \<and> (\<forall>i \<in> set [1..n]. 0 < (of_int i :: real) / of_int (n + 1)
                              \<and> (of_int i :: real) / of_int (n + 1) < 1)"
    using sample_fractions [of n a cs] fraction_interior [of _ n] by auto
  have degenerate: "1 \<le> n \<and> arc_length a cs = 0 \<longrightarrow>
        sample_points_along_line (a # cs) n = Inr (replicate (nat n) a)"
    using sample_degenerate [of n a cs] by simp
  have straight: "1 \<le> n \<and> 0 < segment_len_mi a b \<longrightarrow>
        sample_points_along_line [a, b] n
          = Inr (map (\<lambda>i. interpolate_on_segment a b (of_int i / of_int (n + 1))) [1..n])"
    using sample_straight [of n a b] by simp
  have ten: "segment_len_mi (0, 0) (0, 10 / 69) = 10"
    by (simp add: meridian_segment)
  have len: "line_length_mi ten_mile_line = 10"
    by (simp add: ten_mile_line_def line_length_mi_arc ten)
  have one: "sample_points_along_line ten_mile_line 1 = Inr [(0, 5 / 69)]"
    using sample_straight [of 1 "(0, 0)" "(0, 10 / 69)"] ten
    by (simp add: ten_mile_line_def interpolate_on_segment_def upto_rec1)
  have three: "sample_points_along_line ten_mile_line 3
      = Inr [(0, (5 / 2) / 69), (0, 5 / 69), (0, (15 / 2) / 69)]"
    using sample_straight [of 3 "(0, 0)" "(0, 10 / 69)"] ten
    by (simp add: ten_mile_line_def interpolate_on_segment_def upto_rec1)
  have dist: "segment_len_mi (0, 0) (0, 5 / 69) = 5"
    "segment_len_mi (0, 0) (0, (5 / 2) / 69) = 5 / 2"
    "segment_len_mi (0, 0) (0, (15 / 2) / 69) = 15 / 2"
    by (simp_all add: meridian_segment)
  from none sample_single [of a cs] many degenerate line_length_mi_arc [of a cs] straight
    len one three dist
  show ?thesis by (intro conjI)
qed

theorem sample_points_at_equal_fractions_witness:
  "sample_points_along_line [(0, 0), (0, 10 / 69), (0, 20 / 69)] 3
     = Inr [(0, 5 / 69), (0, 10 / 69), (0, 15 / 69)]
   \<and> sample_points_along_line [(1, 1), (1, 1)] 2 = Inr [(1, 1), (1, 1)]
   \<and> sample_points_along_line [(1, 1), (1, 1)] 0 = Inr []"
proof -
  have seg: "segment_len_mi (0, 0) (0, 10 / 69) = 10" "segment_len_mi (0, 10 / 69) (0, 20 / 69) = 10"
    "segment_len_mi (1, 1) (1, 1) = 0"
    by (simp_all add: segment_len_mi_def deg_to_miles_lon_def deg_to_miles_lat_def)
  note spec = sample_points_at_equal_fractions
  have "(1::int) < 3 \<and> 0 < arc_length (0, 0) [(0, 10 / 69), (0, 20 / 69)]"
    by (simp add: seg)
  from spec [of 3 _ "(0, 0)" "[(0, 10 / 69), (0, 20 / 69)]", THEN conjunct2, THEN conjunct2,
      THEN conjunct1, THEN mp, OF this, THEN conjunct1]
  have a: "sample_points_along_line [(0, 0), (0, 10 / 69), (0, 20 / 69)] 3
     = Inr [(0, 5 / 69), (0, 10 / 69), (0, 15 / 69)]"
    by (simp add: seg upto_rec1 interpolate_on_segment_def)
  have "(1::int) \<le> 2 \<and> arc_length (1, 1) [(1, 1)] = 0"
    by (simp add: seg)
  from spec [of 2 _ "(1, 1)" "[(1, 1)]", THEN conjunct2, THEN conjunct2, THEN conjunct2,
      THEN conjunct1, THEN mp, OF this]
  have b: "sample_points_along_line [(1, 1), (1, 1)] 2 = Inr [(1, 1), (1, 1)]"
    by (simp add: numeral_2_eq_2)
  have "(0::int) \<le> 0" by simp
  from spec [of 0 "[(1, 1), (1, 1)]", THEN conjunct1, THEN mp, OF this]
  have c: "sample_points_along_line [(1, 1), (1, 1)] 0 = Inr []" .
  from a b c show ?thesis by (intro conjI)
qed

section \<open>Properties of Tier-A seeding\<close>

lemma site_id_tiera_site:
  "site_id_of (tiera_site float_repr sq corridor_id i alt m pt) = JStr (''S_A_'' @ zero_pad 4 sq)"
  by (simp add: site_id_of_def tiera_site_def dict_of_def TIERA_DEFAULT_SITE_FIELDS_def py_get_def)

lemma tiera_ids_snoc: "lo \<le> hi \<Longrightarrow> tiera_ids lo (hi + 1) = tiera_ids lo hi @ [JStr (''S_A_'' @ zero_pad 4 hi)]"
  by (simp add: tiera_ids_def)

lemma geometry_tiera_site:
  "geometry (tiera_site float_repr sq corridor_id i alt m pt) = Point pt"
  by (simp add: tiera_site_def)

lemma tiera_ids_Cons:
  "tiera_ids lo (Suc (lo + k)) = JStr (''S_A_'' @ zero_pad 4 lo) # tiera_ids (Suc lo) (Suc (lo + k))"
proof -
  have "[lo..<Suc (lo + k)] = lo # [Suc lo..<Suc (lo + k)]"
    by (rule upt_conv_Cons) simp
  then show ?thesis by (simp add: tiera_ids_def)
qed

lemma seed_points_dropped:
  assumes "i < length pts" and "find_hex_for_point (pts ! i) hex_index = Inr None"
  shows "seed_points float_repr hex_index corridor_id required pts (i # rest) st
    = seed_points float_repr hex_index corridor_id required pts rest st"
  using assms by (simp add: and_then_def)

lemma seed_points_result:
  assumes "seed_points float_repr hex_index corridor_id required pts is st = Inr st'"
  shows "\<exists>new. seeded st' = seeded st @ new
    \<and> seq st' = seq st + length new
    \<and> map site_id_of new = tiera_ids (seq st) (seq st + length new)
    \<and> map geometry new
        = map (\<lambda>i. Point (pts ! i))
            (filter (\<lambda>i. find_hex_for_point (pts ! i) hex_index \<noteq> Inr None) is)"
  using assms
proof (induction "is" arbitrary: st)
  case Nil
  then show ?case by (simp add: tiera_ids_def)
next
  case (Cons i rest)
  from Cons.prems have i: "i < length pts"
    by (auto split: if_splits)
  with Cons.prems obtain match where m: "find_hex_for_point (pts ! i) hex_index = Inr match"
    by (auto simp add: and_then_def split: sum.splits)
  show ?case
  proof (cases match)
    case None
    with Cons.prems i m
    have "seed_points float_repr hex_index corridor_id required pts rest st = Inr st'"
      by (simp add: and_then_def)
    from Cons.IH [OF this] None m show ?thesis by auto
  next
    case (Some hex)
    let ?site = "tiera_site float_repr (seq st) corridor_id i (int i \<ge> required) hex (pts ! i)"
    let ?st1 = "\<lparr>seeded = seeded st @ [?site], seq = seq st + 1\<rparr>"
    from Cons.prems i m Some
    have "seed_points float_repr hex_index corridor_id required pts rest ?st1 = Inr st'"
      by (simp add: and_then_def)
    from Cons.IH [OF this] obtain new where new: "seeded st' = seeded ?st1 @ new"
      "seq st' = seq ?st1 + length new"
      "map site_id_of new = tiera_ids (seq ?st1) (seq ?st1 + length new)"
      "map geometry new = map (\<lambda>i. Point (pts ! i))
            (filter (\<lambda>i. find_hex_for_point (pts ! i) hex_index \<noteq> Inr None) rest)"
      by blast
    have "seeded st' = seeded st @ (?site # new)"
      using new(1) by simp
    moreover have "seq st' = seq st + length (?site # new)"
      using new(2) by simp
    moreover have "map site_id_of (?site # new) = tiera_ids (seq st) (seq st + length (?site # new))"
      using new(3) by (simp add: site_id_tiera_site tiera_ids_Cons)
    moreover have "map geometry (?site # new) = map (\<lambda>i. Point (pts ! i))
            (filter (\<lambda>i. find_hex_for_point (pts ! i) hex_index \<noteq> Inr None) (i # rest))"
      using new(4) m Some by (simp add: geometry_tiera_site)
    ultimately show ?thesis by blast
  qed
qed

lemma tiera_ids_append:
  "lo \<le> mid \<Longrightarrow> tiera_ids lo mid @ tiera_ids mid (mid + k) = tiera_ids lo (mid + k)"
  by (simp add: tiera_ids_def upt_add_eq_append [symmetric] map_append [symmetric] del: map_append)

lemma seed_points_numbered:
  assumes "seed_points float_repr hex_index corridor_id required pts is st = Inr st'"
    and "numbered st"
  shows "numbered st'"
proof -
  from seed_points_result [OF assms(1)] obtain new where new: "seeded st' = seeded st @ new"
    "seq st' = seq st + length new"
    "map site_id_of new = tiera_ids (seq st) (seq st + length new)"
    by blast
  with assms(2) tiera_ids_append [of 1 "length (seeded st) + 1" "length new"] show ?thesis
    by (simp add: numbered_def add.commute add.left_commute)
qed

lemma seed_corridor_numbered:
  assumes "seed_corridor float_repr hex_index c (st, rollup) = Inr (st', rollup')"
    and "numbered st"
  shows "numbered st'"
  using assms
  by (auto simp add: seed_corridor_def and_then_def Let_def
      split: geometry.splits sum.splits if_splits dest: seed_points_numbered)

lemma seed_corridors_numbered:
  assumes "seed_corridors float_repr hex_index corridors (st, rollup) = Inr (st', rollup')"
    and "numbered st"
  shows "numbered st'"
  using assms
proof (induction corridors arbitrary: st rollup)
  case Nil
  then show ?case by simp
next
  case (Cons c corridors)
  from Cons.prems(1) obtain st1 rollup1 where
    "seed_corridor float_repr hex_index c (st, rollup) = Inr (st1, rollup1)"
    "seed_corridors float_repr hex_index corridors (st1, rollup1) = Inr (st', rollup')"
    by (auto simp add: and_then_def split: sum.splits)
  with Cons.IH seed_corridor_numbered Cons.prems(2) show ?case by blast
qed

subsection \<open>Sequence numbers\<close>

lemma seed_tiera_main_result:
  assumes "seed_tiera_main float_repr d = Inr (d', k)"
  shows "\<exists>new. tiera_sites_geojson d'
        = filter (\<lambda>f. py_get (properties f) ''tier'' \<noteq> JStr ''A'') (tiera_sites_geojson d) @ new
      \<and> length new = k \<and> map site_id_of new = tiera_ids 1 (k + 1)"
proof -
  from assms obtain st rollup where
    run: "seed_corridors float_repr (build_hex_index float_repr (tiera_hex_cells_geojson d))
            (corridors_geojson d) (\<lparr>seeded = [], seq = 1\<rparr>, Map.empty) = Inr (st, rollup)"
    and out: "tiera_sites_geojson d'
        = filter (\<lambda>f. py_get (properties f) ''tier'' \<noteq> JStr ''A'') (tiera_sites_geojson d) @ seeded st"
      "k = length (seeded st)"
    by (auto simp add: seed_tiera_main_def Let_def and_then_def split: if_splits sum.splits)
  have "numbered \<lparr>seeded = [], seq = 1\<rparr>"
    by (simp add: numbered_def tiera_ids_def)
  from seed_corridors_numbered [OF run this] out show ?thesis
    by (auto simp add: numbered_def)
qed

subsection \<open>The example corridor\<close>

lemma zero_pad_small:
  "zero_pad 4 1 = ''0001''" "zero_pad 4 2 = ''0002''" "zero_pad 4 3 = ''0003''"
  "zero_pad 2 1 = ''01''" "zero_pad 2 2 = ''02''" "zero_pad 2 3 = ''03''"
  "zero_pad 4 (Suc 0) = ''0001''" "zero_pad 2 (Suc 0) = ''01''"
  by (simp_all add: zero_pad_def numeral_3_eq_3)

lemma ex_hex_index:
  "build_hex_index float_repr ex_squares
     = [(''H_000001'', ''Z1'', [[(-1, 1/2), (1, 1/2), (1, 3/2), (-1, 3/2), (-1, 1/2)]]),
        (''H_000002'', ''Z2'', [[(-1, 5/2), (1, 5/2), (1, 7/2), (-1, 7/2), (-1, 5/2)]])]"
  by (simp add: build_hex_index_def ex_squares_def py_get_def py_or_def)

lemma ex_find_hex:
  "find_hex_for_point (0, 1) (build_hex_index float_repr ex_squares) = Inr (Some (''H_000001'', ''Z1''))"
  "find_hex_for_point (0, 2) (build_hex_index float_repr ex_squares) = Inr None"
  "find_hex_for_point (0, 3) (build_hex_index float_repr ex_squares) = Inr (Some (''H_000002'', ''Z2''))"
  by (simp_all add: ex_hex_index point_in_polygon_def point_in_ring_def and_then_def Let_def)

lemma ex_sample:
  "sample_points_along_line [(0, 0), (0, 4)] 3 = Inr [(0, 1), (0, 2), (0, 3)]"
proof -
  have "segment_len_mi (0, 0) (0, 4) = 276"
    by (simp add: meridian_segment)
  with sample_straight [of 3 "(0, 0)" "(0, 4)"] show ?thesis
    by (simp add: interpolate_on_segment_def upto_rec1)
qed

lemma ex_seed_corridor:
  "seed_corridor float_repr (build_hex_index float_repr ex_squares) ex_corridor
     (\<lparr>seeded = [], seq = 1\<rparr>, Map.empty)
   = Inr (\<lparr>seeded = [tiera_site float_repr 1 (JStr ''C1'') 0 False (''H_000001'', ''Z1'') (0, 1),
                     tiera_site float_repr 2 (JStr ''C1'') 2 True (''H_000002'', ''Z2'') (0, 3)],
           seq = 3\<rparr>,
          [''C1'' \<mapsto> \<lparr>row_required = 2, row_alternate = 1, row_total = 3\<rparr>])"
proof -
  have idx: "[0..<3] = [0, 1, 2::nat]"
    by (simp add: upt_rec)
  show ?thesis
    by (simp add: seed_corridor_def ex_corridor_def py_get_def py_get_default_def py_or_def
        and_then_def Let_def ex_sample idx ex_find_hex del: One_nat_def)
qed

lemma ex_seed_tiera_main:
  "seed_tiera_main float_repr ex_tiera_dir
   = Inr (ex_tiera_dir\<lparr>tiera_sites_geojson :=
            filter (\<lambda>f. py_get (properties f) ''tier'' \<noteq> JStr ''A'') ex_sites
            @ [tiera_site float_repr 1 (JStr ''C1'') 0 False (''H_000001'', ''Z1'') (0, 1),
               tiera_site float_repr 2 (JStr ''C1'') 2 True (''H_000002'', ''Z2'') (0, 3)],
          tiera_targets_by_corridor :=
            [''C1'' \<mapsto> \<lparr>row_required = 2, row_alternate = 1, row_total = 3\<rparr>]\<rparr>, 2)"
proof -
  have "ex_squares \<noteq> []" by (simp add: ex_squares_def)
  then show ?thesis
    by (simp add: seed_tiera_main_def ex_tiera_dir_def Let_def and_then_def ex_seed_corridor
        del: One_nat_def)
qed

text \<open>
  Claim C8. A sampled point that lies in no hex cell is skipped: the loop goes on with the
  state unchanged, so no error is raised and the sequence number is not advanced. The loop
  over the points of a corridor appends one site for each matched point, in sampling order,
  with consecutive ids from the current sequence number. A completed run of \<open>main\<close>
  writes the kept sites followed by the seeded ones, whose ids are \<^verbatim>\<open>S_A_0001\<close>,
  \<^verbatim>\<open>S_A_0002\<close>, ... up to the number of seeded sites.
\<close>

theorem tiera_seeding_skips_unmatched_points:
  "(\<forall>i pts rest st.
       i < length pts \<and> find_hex_for_point (pts ! i) hex_index = Inr None \<longrightarrow>
       seed_points float_repr hex_index corridor_id required pts (i # rest) st
         = seed_points float_repr hex_index corridor_id required pts rest st)
   \<and> (\<forall>pts is st st'.
        seed_points float_repr hex_index corridor_id required pts is st = Inr st' \<longrightarrow>
        (\<exists>new. seeded st' = seeded st @ new
           \<and> seq st' = seq st + length new
           \<and> map site_id_of new = tiera_ids (seq st) (seq st + length new)
           \<and> map geometry new
               = map (\<lambda>i. Point (pts ! i))
                   (filter (\<lambda>i. find_hex_for_point (pts ! i) hex_index \<noteq> Inr None) is)))
   \<and> (\<forall>d d' k.
        seed_tiera_main float_repr d = Inr (d', k) \<longrightarrow>
        (\<exists>new. tiera_sites_geojson d'
              = filter (\<lambda>f. py_get (properties f) ''tier'' \<noteq> JStr ''A'') (tiera_sites_geojson d) @ new
           \<and> length new = k
           \<and> map site_id_of new = tiera_ids 1 (k + 1)))"
  using seed_points_dropped [of _ _ hex_index float_repr corridor_id required]
    seed_points_result [of float_repr hex_index corridor_id required]
    seed_tiera_main_result [of float_repr]
  by (intro conjI allI impI) blast+

theorem tiera_seeding_skips_unmatched_points_witness:
  "\<exists>d'. seed_tiera_main (\<lambda>_. []) ex_tiera_dir = Inr (d', 2)
     \<and> find_hex_for_point (0, 2) (build_hex_index (\<lambda>_. []) (tiera_hex_cells_geojson ex_tiera_dir)) = Inr None
     \<and> map site_id_of (drop 3 (tiera_sites_geojson d')) = [JStr ''S_A_0001'', JStr ''S_A_0002'']
     \<and> map geometry (drop 3 (tiera_sites_geojson d')) = [Point (0, 1), Point (0, 3)]
     \<and> map (\<lambda>f. py_get (properties f) ''site_name'') (drop 3 (tiera_sites_geojson d'))
         = [JStr ''Tier A C1 #01'', JStr ''Tier A C1 #03'']"
proof -
  let ?K = "filter (\<lambda>f. py_get (properties f) ''tier'' \<noteq> JStr ''A'') ex_sites"
  let ?s1 = "tiera_site (\<lambda>_. []) 1 (JStr ''C1'') 0 False (''H_000001'', ''Z1'') (0, 1)"
  let ?s2 = "tiera_site (\<lambda>_. []) 2 (JStr ''C1'') 2 True (''H_000002'', ''Z2'') (0, 3)"
  let ?d = "ex_tiera_dir\<lparr>tiera_sites_geojson := ?K @ [?s1, ?s2],
          tiera_targets_by_corridor :=
            [''C1'' \<mapsto> \<lparr>row_required = 2, row_alternate = 1, row_total = 3\<rparr>]\<rparr>"
  have run: "seed_tiera_main (\<lambda>_. []) ex_tiera_dir = Inr (?d, 2)"
    by (rule ex_seed_tiera_main)
  from tiera_seeding_skips_unmatched_points [of _ "\<lambda>_. []", THEN conjunct2, THEN conjunct2,
      THEN spec, THEN spec, THEN spec, THEN mp, OF run]
  obtain new where new: "tiera_sites_geojson ?d
        = filter (\<lambda>f. py_get (properties f) ''tier'' \<noteq> JStr ''A'') (tiera_sites_geojson ex_tiera_dir) @ new"
    "map site_id_of new = tiera_ids 1 (2 + 1)"
    by (elim exE conjE)
  have sites: "tiera_sites_geojson ?d = ?K @ [?s1, ?s2]"
    by simp
  have K: "filter (\<lambda>f. py_get (properties f) ''tier'' \<noteq> JStr ''A'') (tiera_sites_geojson ex_tiera_dir) = ?K"
    by (simp add: ex_tiera_dir_def)
  from new(1) have "?K @ [?s1, ?s2] = ?K @ new"
    by (simp only: sites K)
  then have new_is: "new = [?s1, ?s2]"
    by (simp only: same_append_eq)
  have kept: "length ?K = 3"
    by (simp add: ex_sites_def py_get_def)
  then have dropped: "drop 3 (tiera_sites_geojson ?d) = [?s1, ?s2]"
    by (simp only: sites drop_append drop_all order_refl diff_self_eq_0 drop_0 append_Nil)
  have "[1..<2 + 1] = [1, 2::nat]"
    by (simp add: upt_rec)
  then have ids: "tiera_ids 1 (2 + 1) = [JStr ''S_A_0001'', JStr ''S_A_0002'']"
    by (simp only: tiera_ids_def list.map zero_pad_small append.simps)
  have a: "map site_id_of (drop 3 (tiera_sites_geojson ?d)) = [JStr ''S_A_0001'', JStr ''S_A_0002'']"
    using new(2) by (simp only: dropped new_is ids)
  have b: "find_hex_for_point (0, 2)
      (build_hex_index (\<lambda>_. []) (tiera_hex_cells_geojson ex_tiera_dir)) = Inr None"
    by (simp add: ex_tiera_dir_def ex_find_hex)
  have c: "map geometry (drop 3 (tiera_sites_geojson ?d)) = [Point (0, 1), Point (0, 3)]"
    by (simp only: dropped list.map geometry_tiera_site)
  have "py_get (properties ?s1) ''site_name'' = JStr ''Tier A C1 #01''"
    "py_get (properties ?s2) ''site_name'' = JStr ''Tier A C1 #03''"
    by (simp_all add: tiera_site_def dict_of_def TIERA_DEFAULT_SITE_FIELDS_def py_get_def
        zero_pad_small)
  then have d: "map (\<lambda>f. py_get (properties f) ''site_name'') (drop 3 (tiera_sites_geojson ?d))
         = [JStr ''Tier A C1 #01'', JStr ''Tier A C1 #03'']"
    by (simp only: dropped list.map)
  from run a b c d show ?thesis by (intro exI conjI)
qed

section \<open>Properties of Tier-B seeding\<close>

lemma site_id_tierb_site:
  "site_id_of (tierb_site float_repr sq cell_id zone_id i alt pt) = JStr (''S_B_'' @ zero_pad 4 sq)"
  by (simp add: site_id_of_def tierb_site_def dict_of_def TIERB_DEFAULT_SITE_FIELDS_def py_get_def
      new_site_id_def)

lemma tierb_site_candidate:
  "tierb_candidate (tierb_site float_repr sq cell_id zone_id i alt pt)"
  by (simp add: tierb_candidate_def tierb_site_def dict_of_def TIERB_DEFAULT_SITE_FIELDS_def py_get_def)

lemma tierb_ids_snoc:
  "lo \<le> hi \<Longrightarrow> tierb_ids lo (Suc hi) = tierb_ids lo hi @ [JStr (''S_B_'' @ zero_pad 4 hi)]"
  by (simp add: tierb_ids_def)

lemma seed_cell_points_numbered:
  assumes "seed_cell_points float_repr cell_id zone_id req pts is st = Inr st'"
    and "numbered_b st"
  shows "numbered_b st'"
  using assms
proof (induction "is" arbitrary: st)
  case Nil
  then show ?case by simp
next
  case (Cons i rest)
  let ?st1 = "\<lparr>seeded = seeded st
                 @ [tierb_site float_repr (seq st) cell_id zone_id i (int i \<ge> req) (pts ! i)],
              seq = seq st + 1\<rparr>"
  from Cons.prems(1) have run: "seed_cell_points float_repr cell_id zone_id req pts rest ?st1 = Inr st'"
    by (simp split: if_splits)
  have "numbered_b ?st1"
    using Cons.prems(2)
    by (simp add: numbered_b_def tierb_ids_snoc site_id_tierb_site tierb_site_candidate)
  from Cons.IH [OF run this] show ?case .
qed

lemma seed_hex_numbered:
  assumes "seed_hex float_repr hf (st, by_zone) = Inr (st', by_zone')"
    and "numbered_b st"
  shows "numbered_b st'"
  using assms
  by (auto simp add: seed_hex_def and_then_def Let_def
      split: sum.splits if_splits prod.splits dest: seed_cell_points_numbered)

lemma seed_hexes_numbered:
  assumes "seed_hexes float_repr hex_features (st, by_zone) = Inr (st', by_zone')"
    and "numbered_b st"
  shows "numbered_b st'"
  using assms
proof (induction hex_features arbitrary: st by_zone)
  case Nil
  then show ?case by simp
next
  case (Cons hf hex_features)
  from Cons.prems(1) obtain st1 by_zone1 where
    "seed_hex float_repr hf (st, by_zone) = Inr (st1, by_zone1)"
    "seed_hexes float_repr hex_features (st1, by_zone1) = Inr (st', by_zone')"
    by (auto simp add: and_then_def split: sum.splits)
  with Cons.IH seed_hex_numbered Cons.prems(2) show ?case by blast
qed

lemma seed_tierb_main_result:
  assumes "seed_tierb_main float_repr d = Inr (d', k)"
  shows "length (tierb_sites_geojson d') = k
    \<and> map site_id_of (tierb_sites_geojson d') = tierb_ids 1 (k + 1)
    \<and> list_all tierb_candidate (tierb_sites_geojson d')"
proof -
  from assms obtain st by_zone where
    run: "seed_hexes float_repr (tierb_hex_cells_geojson d) (\<lparr>seeded = [], seq = 1\<rparr>, Map.empty)
            = Inr (st, by_zone)"
    and out: "tierb_sites_geojson d' = seeded st" "k = length (seeded st)"
    by (auto simp add: seed_tierb_main_def REPLACE_SITES_FILE_def Let_def and_then_def
        split: if_splits sum.splits)
  have "numbered_b \<lparr>seeded = [], seq = 1\<rparr>"
    by (simp add: numbered_b_def tierb_ids_def)
  from seed_hexes_numbered [OF run this] out show ?thesis
    by (simp add: numbered_b_def)
qed

lemma seed_tierb_main_ignores_existing:
  "seed_tierb_main float_repr (d\<lparr>tierb_sites_geojson := existing\<rparr>) = seed_tierb_main float_repr d"
  by (simp add: seed_tierb_main_def REPLACE_SITES_FILE_def Let_def)

subsection \<open>The example cell\<close>

lemma ex_centroid: "get_centroid (geometry ex_scored_hex) = Inr (0, 1)"
  by (simp add: get_centroid_def ex_scored_hex_def centroid_from_ring_def)

lemma ex_candidate_points:
  "candidate_points 0 1 3 = [(- (3 / 10000), 9997 / 10000), (0, 9997 / 10000), (3 / 10000, 9997 / 10000)]"
  by (simp add: candidate_points_def base_offsets_def Let_def numeral_3_eq_3)

lemma ex_seed_hex:
  "seed_hex float_repr ex_scored_hex (\<lparr>seeded = [], seq = 1\<rparr>, Map.empty)
   = Inr (\<lparr>seeded =
            [tierb_site float_repr 1 (JStr ''H_000001'') (JStr ''Z1'') 0 False (- (3 / 10000), 9997 / 10000),
             tierb_site float_repr 2 (JStr ''H_000001'') (JStr ''Z1'') 1 False (0, 9997 / 10000),
             tierb_site float_repr 3 (JStr ''H_000001'') (JStr ''Z1'') 2 True (3 / 10000, 9997 / 10000)],
           seq = 4\<rparr>,
          [JStr ''Z1'' \<mapsto> \<lparr>req_sites_required = 2, req_alternate_required = 1, req_total = 3\<rparr>])"
proof -
  have idx: "[0..<3] = [0, 1, 2::nat]"
    by (simp add: upt_rec)
  have props: "properties ex_scored_hex = map_of [(''cell_id'', JStr ''H_000001''), (''zone_id'', JStr ''Z1''),
        (''tierB_sites_required'', JInt 2), (''tierB_alternate_required'', JInt 1)]"
    by (simp add: ex_scored_hex_def)
  show ?thesis
    by (simp add: seed_hex_def props py_get_def py_get_default_def py_or_def
        and_then_def Let_def ex_centroid ex_candidate_points idx del: One_nat_def)
qed

lemma ex_seed_tierb_main:
  "seed_tierb_main float_repr ex_tierb_dir
   = Inr (ex_tierb_dir\<lparr>tierb_sites_geojson :=
            [tierb_site float_repr 1 (JStr ''H_000001'') (JStr ''Z1'') 0 False (- (3 / 10000), 9997 / 10000),
             tierb_site float_repr 2 (JStr ''H_000001'') (JStr ''Z1'') 1 False (0, 9997 / 10000),
             tierb_site float_repr 3 (JStr ''H_000001'') (JStr ''Z1'') 2 True (3 / 10000, 9997 / 10000)],
          tierb_requirements_by_zone :=
            [JStr ''Z1'' \<mapsto> \<lparr>req_sites_required = 2, req_alternate_required = 1, req_total = 3\<rparr>]\<rparr>, 3)"
  by (simp add: seed_tierb_main_def REPLACE_SITES_FILE_def ex_tierb_dir_def Let_def and_then_def
      ex_seed_hex del: One_nat_def)

text \<open>
  Claim C10. The shipped mode is \<open>REPLACE_SITES_FILE = True\<close>. A completed run of \<open>main\<close>
  writes a sites collection that consists of the seeded features only: its length is the
  number of seeded sites, every feature in it is a Tier-B candidate, and the site ids are
  \<^verbatim>\<open>S_B_0001\<close>, \<^verbatim>\<open>S_B_0002\<close>, ... from 1. The run does not depend on the sites that
  were in the file: with any other previous content the result is the same, so no previous
  feature, Tier-A or other, is carried over.
\<close>

theorem tierb_seeding_replaces_sites:
  "REPLACE_SITES_FILE
   \<and> (\<forall>d d' k. seed_tierb_main float_repr d = Inr (d', k) \<longrightarrow>
         length (tierb_sites_geojson d') = k
       \<and> map site_id_of (tierb_sites_geojson d') = tierb_ids 1 (k + 1)
       \<and> list_all tierb_candidate (tierb_sites_geojson d')
       \<and> (\<forall>f. is_tier_a f \<longrightarrow> f \<notin> set (tierb_sites_geojson d')))
   \<and> (\<forall>d existing.
         seed_tierb_main float_repr (d\<lparr>tierb_sites_geojson := existing\<rparr>) = seed_tierb_main float_repr d)"
proof (intro conjI allI impI)
  show "REPLACE_SITES_FILE" by (simp add: REPLACE_SITES_FILE_def)
next
  fix d d' k assume run: "seed_tierb_main float_repr d = Inr (d', k)"
  from seed_tierb_main_result [OF run]
  show "length (tierb_sites_geojson d') = k"
    and "map site_id_of (tierb_sites_geojson d') = tierb_ids 1 (k + 1)"
    and all: "list_all tierb_candidate (tierb_sites_geojson d')"
    by simp_all
  fix f assume "is_tier_a f"
  then have "\<not> tierb_candidate f"
    by (simp add: is_tier_a_def tierb_candidate_def)
  with all show "f \<notin> set (tierb_sites_geojson d')"
    by (auto simp add: list_all_iff)
next
  fix d existing
  show "seed_tierb_main float_repr (d\<lparr>tierb_sites_geojson := existing\<rparr>) = seed_tierb_main float_repr d"
    by (rule seed_tierb_main_ignores_existing)
qed

theorem tierb_seeding_replaces_sites_witness:
  "\<exists>d'. seed_tierb_main (\<lambda>_. []) ex_tierb_dir = Inr (d', 3)
     \<and> length (tierb_sites_geojson ex_tierb_dir) = 5
     \<and> is_tier_a (tierb_sites_geojson ex_tierb_dir ! 0)
     \<and> tierb_sites_geojson ex_tierb_dir ! 0 \<notin> set (tierb_sites_geojson d')
     \<and> length (tierb_sites_geojson d') = 3
     \<and> map site_id_of (tierb_sites_geojson d') = [JStr ''S_B_0001'', JStr ''S_B_0002'', JStr ''S_B_0003'']"
proof -
  let ?d = "ex_tierb_dir\<lparr>tierb_sites_geojson :=
            [tierb_site (\<lambda>_. []) 1 (JStr ''H_000001'') (JStr ''Z1'') 0 False (- (3 / 10000), 9997 / 10000),
             tierb_site (\<lambda>_. []) 2 (JStr ''H_000001'') (JStr ''Z1'') 1 False (0, 9997 / 10000),
             tierb_site (\<lambda>_. []) 3 (JStr ''H_000001'') (JStr ''Z1'') 2 True (3 / 10000, 9997 / 10000)],
          tierb_requirements_by_zone :=
            [JStr ''Z1'' \<mapsto> \<lparr>req_sites_required = 2, req_alternate_required = 1, req_total = 3\<rparr>]\<rparr>"
  have run: "seed_tierb_main (\<lambda>_. []) ex_tierb_dir = Inr (?d, 3)"
    by (rule ex_seed_tierb_main)
  note r = tierb_seeding_replaces_sites [of "\<lambda>_. []", THEN conjunct2, THEN conjunct1,
      THEN spec, THEN spec, THEN spec, THEN mp, OF run]
  have a: "is_tier_a (tierb_sites_geojson ex_tierb_dir ! 0)"
    by (simp add: ex_tierb_dir_def ex_sites_kinds)
  have len0: "length (tierb_sites_geojson ex_tierb_dir) = 5"
    by (simp add: ex_tierb_dir_def ex_sites_kinds)
  from r [THEN conjunct2, THEN conjunct2, THEN conjunct2, THEN spec, THEN mp, OF a]
  have gone: "tierb_sites_geojson ex_tierb_dir ! 0 \<notin> set (tierb_sites_geojson ?d)" .
  have "[1..<3 + 1] = [1, 2, 3::nat]"
    by (simp add: upt_rec)
  then have ids: "tierb_ids 1 (3 + 1) = [JStr ''S_B_0001'', JStr ''S_B_0002'', JStr ''S_B_0003'']"
    by (simp only: tierb_ids_def list.map zero_pad_small append.simps)
  from r [THEN conjunct2, THEN conjunct1]
  have b: "map site_id_of (tierb_sites_geojson ?d) = [JStr ''S_B_0001'', JStr ''S_B_0002'', JStr ''S_B_0003'']"
    by (simp only: ids)
  note c = r [THEN conjunct1]
  from run len0 a gone c b show ?thesis by (intro exI conjI)
qed
end
